theory Spec2Isabelle
  imports Complex_Main
begin

section \<open>JavaScript strings, numbers and thrown values\<close>

text \<open>
  A JavaScript string is modelled as a \<^typ>\<open>string\<close>, the list of its UTF-8 bytes. The
  operations below are exact on ASCII text, which is all the keyword tests of the
  program look for; a character outside ASCII is a run of bytes above 127 that the
  operations leave alone. \<open>Date.now()\<close> is an \<^typ>\<open>int\<close> (milliseconds).
\<close>

definition nl :: string where
  "nl = [CHR 0x0A]"

text \<open>\<open>String.prototype.includes\<close>: is the needle a contiguous part of the string?\<close>

fun str_includes :: "string \<Rightarrow> string \<Rightarrow> bool" where
  "str_includes [] needle = (needle = [])"
| "str_includes (c # cs) needle =
     (take (length needle) (c # cs) = needle \<or> str_includes cs needle)"

definition toLowerCaseChar :: "char \<Rightarrow> char" where
  "toLowerCaseChar c =
     (if (65::nat) \<le> of_char c \<and> of_char c \<le> (90::nat)
      then char_of (of_char c + (32::nat)) else c)"

definition toLowerCase :: "string \<Rightarrow> string" where
  "toLowerCase s = map toLowerCaseChar s"

definition isWhiteSpace :: "char \<Rightarrow> bool" where
  "isWhiteSpace c = (of_char c \<in> {9, 10, 11, 12, 13, 32 :: nat})"

definition trim :: "string \<Rightarrow> string" where
  "trim s = rev (dropWhile isWhiteSpace (rev (dropWhile isWhiteSpace s)))"

text \<open>Decimal rendering of a number inside a template literal.\<close>

fun natToString :: "nat \<Rightarrow> string" where
  "natToString n =
     (if n < 10 then [char_of (48 + n)]
      else natToString (n div 10) @ [char_of (48 + n mod 10)])"

declare natToString.simps [simp del]

definition intToString :: "int \<Rightarrow> string" where
  "intToString i = (if i < 0 then ''-'' @ natToString (nat (- i)) else natToString (nat i))"

text \<open>\<open>Array.prototype.slice(-n)\<close>: the last \<open>n\<close> elements, all of them when there are fewer.\<close>

definition sliceLast :: "nat \<Rightarrow> 'a list \<Rightarrow> 'a list" where
  "sliceLast n xs = drop (length xs - n) xs"

text \<open>A destructuring default: the default stands in for a field that is absent.\<close>

definition orDefault :: "'a \<Rightarrow> 'a option \<Rightarrow> 'a" where
  "orDefault d v = (case v of None \<Rightarrow> d | Some x \<Rightarrow> x)"

text \<open>
  What a \<open>catch (err: any)\<close> can receive. \<open>JsError name message\<close> is an \<open>Error\<close> object
  (also a \<open>DOMException\<close>): it has a string \<open>name\<close> and a string \<open>message\<close>.
  \<open>JsUndefined\<close> is the thrown value \<open>undefined\<close>, which has no property at all: reading
  \<open>err.message\<close> on it raises a \<open>TypeError\<close> of its own (the text is the engine's, V8).
  \<open>js_String\<close> is the rendering \<open>${error}\<close> of a template literal.
\<close>

datatype js_thrown = JsError string string | JsUndefined

definition newError :: "string \<Rightarrow> js_thrown" where
  "newError msg = JsError ''Error'' msg"

definition js_String :: "js_thrown \<Rightarrow> string" where
  "js_String e =
     (case e of
        JsError name msg \<Rightarrow>
          if name = [] then msg else if msg = [] then name else name @ '': '' @ msg
      | JsUndefined \<Rightarrow> ''undefined'')"

definition typeErrorOnUndefined :: js_thrown where
  "typeErrorOnUndefined = JsError ''TypeError''
     (''Cannot read properties of undefined (reading '' @ [CHR 0x27] @ ''message'' @
      [CHR 0x27] @ '')'')"

section \<open>Messages and the shared conversation history (chat.ts, class ApolloAI)\<close>

datatype role = User | Assistant

record message =
  role :: role
  content :: string
  timestamp :: int

text \<open>
  \<open>ApolloAI.conversationHistory\<close> is a static array; the model passes it explicitly.
  \<open>addToHistory\<close> pushes the entry, stamped with \<open>Date.now()\<close>, and keeps the last 8.
\<close>

type_synonym conversation = "message list"

definition addToHistory :: "role \<Rightarrow> string \<Rightarrow> int \<Rightarrow> conversation \<Rightarrow> conversation" where
  "addToHistory r c now h =
     (let h' = h @ [\<lparr>role = r, content = c, timestamp = now\<rparr>]
      in if length h' > 8 then sliceLast 8 h' else h')"

definition clearHistory :: "conversation \<Rightarrow> conversation" where
  "clearHistory h = []"

definition getHistory :: "conversation \<Rightarrow> conversation" where
  "getHistory h = h"

definition getFormattedHistory :: "conversation \<Rightarrow> (role \<times> string) list" where
  "getFormattedHistory h = map (\<lambda>msg. (role msg, content msg)) h"

text \<open>A sequence of \<open>addToHistory\<close> calls, each with its role, content and clock reading.\<close>

definition addAllToHistory :: "(role \<times> string \<times> int) list \<Rightarrow> conversation \<Rightarrow> conversation" where
  "addAllToHistory calls h = foldl (\<lambda>h (r, c, t). addToHistory r c t h) h calls"

definition entryOf :: "role \<times> string \<times> int \<Rightarrow> message" where
  "entryOf call = (case call of (r, c, t) \<Rightarrow> \<lparr>role = r, content = c, timestamp = t\<rparr>)"

section \<open>The context analysis (ApolloAI.analyzeConversationContext)\<close>

text \<open>
  The object literal \<open>context\<close> of the source; \<open>questionType\<close> and \<open>userProgression\<close> are
  the strings the source stores.
\<close>

record context_signals =
  hasCodeQuestions :: bool
  hasPrintQuestions :: bool
  hasCalculatorQuestions :: bool
  repeatedTopics :: "string list"
  userProgression :: string
  lastUserQuestion :: string
  lastAssistantResponse :: string
  conversationLength :: nat
  topicContinuity :: bool
  questionType :: string

definition doubleQuote :: string where
  "doubleQuote = [CHR 0x22]"

text \<open>
  The body of the loop over \<open>recent\<close>. For a user message the source runs four \<open>if\<close>
  statements one after the other on the lower-cased content \<open>c\<close>; each is a function here,
  in the order of the source. The state of the loop is the context together with the two
  local arrays \<open>userQuestions\<close> and \<open>assistantResponses\<close>.
\<close>

definition notePrintQuestion :: "string \<Rightarrow> context_signals \<Rightarrow> context_signals" where
  "notePrintQuestion c ctx =
     (if str_includes c ''print'' then
        (if str_includes c ''what'' \<or> str_includes c ''does'' \<or> str_includes c ''use''
         then ctx\<lparr>hasPrintQuestions := True, questionType := ''concept_inquiry''\<rparr>
         else if str_includes c ''output'' \<or> str_includes c ''result''
         then ctx\<lparr>hasPrintQuestions := True, questionType := ''prediction''\<rparr>
         else ctx\<lparr>hasPrintQuestions := True\<rparr>)
      else ctx)"

definition noteCodeQuestion :: "string \<Rightarrow> context_signals \<Rightarrow> context_signals" where
  "noteCodeQuestion c ctx =
     (if str_includes c ''code'' \<or> str_includes c ''function'' \<or> str_includes c ''python''
      then ctx\<lparr>hasCodeQuestions := True\<rparr> else ctx)"

definition noteCalculatorQuestion :: "string \<Rightarrow> context_signals \<Rightarrow> context_signals" where
  "noteCalculatorQuestion c ctx =
     (if str_includes c ''calculator'' \<or> str_includes c ''create'' \<or> str_includes c ''make''
      then ctx\<lparr>hasCalculatorQuestions := True, questionType := ''project_request''\<rparr>
      else ctx)"

definition noteOutputPrediction :: "string \<Rightarrow> context_signals \<Rightarrow> context_signals" where
  "noteOutputPrediction c ctx =
     (if str_includes c ''output'' \<and> (str_includes c ''print'' \<or> str_includes c doubleQuote)
      then ctx\<lparr>questionType := ''output_prediction''\<rparr> else ctx)"

definition analyzeMessage ::
  "context_signals \<times> string list \<times> string list \<Rightarrow> message \<Rightarrow>
   context_signals \<times> string list \<times> string list" where
  "analyzeMessage st msg =
     (case st of (ctx, userQuestions, assistantResponses) \<Rightarrow>
        let c = toLowerCase (content msg) in
        (case role msg of
           User \<Rightarrow>
             (noteOutputPrediction c (noteCalculatorQuestion c (noteCodeQuestion c
                (notePrintQuestion c (ctx\<lparr>lastUserQuestion := content msg\<rparr>)))),
              userQuestions @ [c], assistantResponses)
         | Assistant \<Rightarrow>
             (ctx\<lparr>lastAssistantResponse := content msg\<rparr>, userQuestions,
              assistantResponses @ [c])))"

definition initialContext :: "nat \<Rightarrow> context_signals" where
  "initialContext len =
     \<lparr>hasCodeQuestions = False, hasPrintQuestions = False, hasCalculatorQuestions = False,
      repeatedTopics = [], userProgression = ''beginner'', lastUserQuestion = '''',
      lastAssistantResponse = '''', conversationLength = len, topicContinuity = False,
      questionType = ''general''\<rparr>"

definition checkTopicContinuity :: "string list \<Rightarrow> context_signals \<Rightarrow> context_signals" where
  "checkTopicContinuity userQuestions ctx =
     (if length userQuestions \<ge> 2 then
        (let recentTopics = sliceLast 2 userQuestions in
         if list_all (\<lambda>q. str_includes q ''print'') recentTopics \<or>
            list_all (\<lambda>q. str_includes q ''calculator'') recentTopics
         then ctx\<lparr>topicContinuity := True\<rparr> else ctx)
      else ctx)"

definition determineProgression :: "context_signals \<Rightarrow> context_signals" where
  "determineProgression ctx =
     (let ctx1 = (if conversationLength ctx > 4
                  then ctx\<lparr>userProgression := ''intermediate''\<rparr> else ctx)
      in if hasCodeQuestions ctx1 \<and> conversationLength ctx1 > 2
         then ctx1\<lparr>userProgression := ''hands_on''\<rparr> else ctx1)"

definition analyzeConversationContext :: "conversation \<Rightarrow> context_signals" where
  "analyzeConversationContext h =
     (let recent = sliceLast 6 h in
      case foldl analyzeMessage (initialContext (length h), [], []) recent of
        (ctx, userQuestions, assistantResponses) \<Rightarrow>
          determineProgression (checkTopicContinuity userQuestions ctx))"

section \<open>The remote call (chat.ts, askAI)\<close>

subsection \<open>The request\<close>

text \<open>
  The options object of \<open>askAI\<close>: every field may be absent. \<open>retries\<close> is an integer
  (the retry budget); the active editor, when there is one, gives the three values the
  context annotation uses.
\<close>

record askAI_options =
  temperature :: "real option"
  maxTokens :: "int option"
  includeContext :: "bool option"
  retries :: "int option"
  forceMode :: "bool option"

record editor =
  fileName :: string
  languageId :: string
  lineCount :: nat

record request_body =
  messages :: "(role \<times> string) list"
  body_temperature :: real
  max_tokens :: int
  stream :: bool
  force_mode :: bool

definition MAX_RETRIES :: int where
  "MAX_RETRIES = 3"

text \<open>\<open>fileName.split(/[/\\]/).pop()\<close>: the part after the last slash or backslash.\<close>

definition lastPathSegment :: "string \<Rightarrow> string" where
  "lastPathSegment p = rev (takeWhile (\<lambda>c. c \<noteq> CHR ''/'' \<and> c \<noteq> CHR 0x5C) (rev p))"

definition userMessageOf :: "editor option \<Rightarrow> bool \<Rightarrow> string \<Rightarrow> string" where
  "userMessageOf ed inclContext prompt =
     (case ed of
        None \<Rightarrow> trim prompt
      | Some e \<Rightarrow>
          if inclContext \<and>
             (str_includes (toLowerCase prompt) ''explain'' \<or>
              str_includes (toLowerCase prompt) ''debug'' \<or>
              str_includes (toLowerCase prompt) ''code'' \<or>
              str_includes (toLowerCase prompt) ''function'') \<and>
             length prompt < 300
          then trim prompt @
                 nl @
                 nl @
                 ''[Context: Working in '' @ lastPathSegment (fileName e) @
                 '' ('' @ languageId e @ '', '' @ natToString (lineCount e) @ '' lines)]''
          else trim prompt)"

definition requestBody :: "editor option \<Rightarrow> string \<Rightarrow> askAI_options \<Rightarrow> conversation \<Rightarrow> request_body" where
  "requestBody ed prompt opts h =
     (let temp = orDefault 0.3 (temperature opts);
          maxTok = orDefault 200 (maxTokens opts);
          inclContext = orDefault True (includeContext opts);
          force = orDefault False (forceMode opts);
          historyMessages =
            (if inclContext \<and> length (getHistory h) > 0 then getFormattedHistory h else [])
      in \<lparr>messages = historyMessages @ [(User, userMessageOf ed inclContext prompt)],
          body_temperature = (if force then 0.1 else min temp 0.5),
          max_tokens = (if force then min maxTok 200 else min maxTok 250),
          stream = False,
          force_mode = force\<rparr>)"

subsection \<open>One attempt\<close>

text \<open>
  The HTTP capability answers one attempt in one of these ways: \<open>fetch\<close> (or loading it)
  throws, on a network failure or when the timeout aborts the request; or there is a
  response with its status, its status text, and what \<open>res.json()\<close> gives: a thrown value
  on a body that is not JSON, an \<open>APIResponse\<close> otherwise. Of the \<open>APIResponse\<close> interface
  the fields that the source reads are kept.
\<close>

datatype api_message = ApiMessage "string option"

datatype api_choice = ApiChoice "api_message option" "string option"

record api_response =
  choices :: "api_choice list option"
  generated_text :: "string option"

datatype http_outcome =
    FetchThrows js_thrown
  | HttpResponse int string "js_thrown + api_response"

definition firstChoiceMessage :: "api_response \<Rightarrow> api_message option" where
  "firstChoiceMessage json =
     (case choices json of
        None \<Rightarrow> None
      | Some [] \<Rightarrow> None
      | Some (ApiChoice m t # rest) \<Rightarrow> m)"

definition extractResponseText :: "api_response \<Rightarrow> js_thrown + string" where
  "extractResponseText json =
     (case firstChoiceMessage json of
        Some (ApiMessage c) \<Rightarrow> Inr (orDefault '''' c)
      | None \<Rightarrow>
          (case generated_text json of
             None \<Rightarrow> Inl (newError ''Unexpected response format from AI service'')
           | Some g \<Rightarrow>
               if g \<noteq> [] then Inr g
               else Inl (newError ''Unexpected response format from AI service'')))"

definition statusError :: "int \<Rightarrow> string \<Rightarrow> js_thrown" where
  "statusError status statusText =
     (if status = 429 then newError
        ([CHR 0xE2, CHR 0x8F, CHR 0xB1, CHR 0xEF, CHR 0xB8, CHR 0x8F] @
         '' Rate limit exceeded. Please wait a moment and try again.'')
      else if status = 401 then newError
        ([CHR 0xF0, CHR 0x9F, CHR 0x94, CHR 0x91] @
         '' Authentication failed. Please check your API key.'')
      else if status \<ge> 500 then newError
        ([CHR 0xF0, CHR 0x9F, CHR 0x94, CHR 0xA7] @
         '' Server error. The AI service is temporarily unavailable.'')
      else newError (''API Error ('' @ intToString status @ ''): '' @ statusText))"

text \<open>
  The body of the \<open>try\<close> block: \<open>Inl\<close> is the value thrown, \<open>Inr\<close> is \<open>finalResponse\<close>, the
  trimmed completion text.
\<close>

definition tryAttempt :: "http_outcome \<Rightarrow> js_thrown + string" where
  "tryAttempt outcome =
     (case outcome of
        FetchThrows e \<Rightarrow> Inl e
      | HttpResponse status statusText body \<Rightarrow>
          if \<not> (200 \<le> status \<and> status \<le> 299) then Inl (statusError status statusText)
          else
            (case body of
               Inl e \<Rightarrow> Inl e
             | Inr json \<Rightarrow>
                 (case extractResponseText json of
                    Inl e \<Rightarrow> Inl e
                  | Inr responseText \<Rightarrow>
                      if responseText = [] then Inl (newError ''Empty response from AI service'')
                      else Inr (trim responseText))))"

subsection \<open>The message after the last failed attempt\<close>

datatype failure_kind = RateLimited | AuthFailed | NetworkOrTimeout | Generic

text \<open>The conditions of the \<open>if\<close> chain in the \<open>catch\<close> block, in the order of the source.\<close>

definition failureKind :: "string \<Rightarrow> string \<Rightarrow> failure_kind" where
  "failureKind name msg =
     (if str_includes msg ''Rate limit'' then RateLimited
      else if str_includes msg ''Authentication'' then AuthFailed
      else if str_includes msg ''fetch'' \<or> name = ''AbortError'' then NetworkOrTimeout
      else Generic)"

definition rateLimitText :: "bool \<Rightarrow> context_signals \<Rightarrow> string" where
  "rateLimitText hasHistory ctx =
     [CHR 0xE2, CHR 0x8F, CHR 0xB1, CHR 0xEF, CHR 0xB8, CHR 0x8F] @ '' **Rate Limited**'' @
     nl @
     nl @
     ''Too many requests in a short time. Please wait a moment before trying again.'' @ nl @
     nl @
     ''**Tip:** Use the Force Answer button sparingly to avoid hitting limits.'' @
     (if hasHistory then
        nl @
        nl @
        ''*Previous conversation context ('' @ natToString (conversationLength ctx) @
        '' messages) will be preserved.*''
      else '''')"

definition authText :: string where
  "authText =
     [CHR 0xF0, CHR 0x9F, CHR 0x94, CHR 0x91] @ '' **Authentication Error**'' @ nl @
     nl @
     ''API key authentication failed. Please contact the extension developer to resolve this issue.''"

definition networkText :: "bool \<Rightarrow> context_signals \<Rightarrow> string" where
  "networkText hasHistory ctx =
     [CHR 0xF0, CHR 0x9F, CHR 0x8C, CHR 0x90] @ '' **Network Error**'' @ nl @
     nl @
     ''Unable to connect to Apollo AI service (Qwen2-0.5B). This could be due to:'' @ nl @
     ''- Internet connection issues'' @ nl @
     ''- The AI service being temporarily unavailable'' @ nl @
     ''- Network firewall blocking the request'' @ nl @
     nl @
     ''**Solutions:**'' @ nl @
     ''- Check your internet connection'' @ nl @
     ''- Try again in a few moments'' @ nl @
     ''- If the problem persists, the service may be down'' @ nl @
     nl @
     (if hasHistory then
        ''*Your conversation history ('' @ natToString (conversationLength ctx) @
        '' messages) is preserved and will be included when the service is available.*''
      else '''')"

definition genericText :: "string \<Rightarrow> string \<Rightarrow> bool \<Rightarrow> context_signals \<Rightarrow> string" where
  "genericText modeText msg hasHistory ctx =
     [CHR 0xE2, CHR 0x9D, CHR 0x8C] @ '' **Connection Failed**'' @ nl @
     nl @
     ''Unable to reach Apollo AI service (Qwen2-0.5B) for '' @ modeText @
     '':'' @ nl @
     ''`'' @ msg @
     ''`'' @ nl @
     nl @
     ''**Possible solutions:**'' @ nl @
     ''- Check your internet connection'' @ nl @
     ''- Try again in a few moments  '' @ nl @
     ''- The AI service might be temporarily unavailable'' @ nl @
     nl @
     ''**If this error persists:**'' @ nl @
     ''- Check VS Code'' @ [CHR 0x27] @ ''s output panel for more details'' @ nl @
     ''- Try restarting VS Code'' @ nl @
     ''- Report the issue if it continues'' @ nl @
     nl @
     (if hasHistory then
        ''*Conversation context ('' @ natToString (conversationLength ctx) @
        '' messages with '' @ questionType ctx @
        '' focus) is preserved.*''
      else '''')"

definition exhaustedText :: "bool \<Rightarrow> conversation \<Rightarrow> string \<Rightarrow> string \<Rightarrow> string" where
  "exhaustedText force h name msg =
     (let modeText = (if force then ''direct answer'' else ''learning guidance'');
          hasHistory = (length (getHistory h) > 0);
          ctx = analyzeConversationContext h
      in case failureKind name msg of
           RateLimited \<Rightarrow> rateLimitText hasHistory ctx
         | AuthFailed \<Rightarrow> authText
         | NetworkOrTimeout \<Rightarrow> networkText hasHistory ctx
         | Generic \<Rightarrow> genericText modeText msg hasHistory ctx)"

text \<open>
  The \<open>catch\<close> block on the last attempt. It reads \<open>err.message\<close>: on a thrown value
  without properties that read throws, inside the handler, and \<open>askAI\<close> rejects.
\<close>

definition onLastFailure :: "bool \<Rightarrow> conversation \<Rightarrow> js_thrown \<Rightarrow> js_thrown + string" where
  "onLastFailure force h err =
     (case err of
        JsError name msg \<Rightarrow> Inr (exhaustedText force h name msg)
      | JsUndefined \<Rightarrow> Inl typeErrorOnUndefined)"

definition isErrorObject :: "js_thrown \<Rightarrow> bool" where
  "isErrorObject e = (case e of JsError name msg \<Rightarrow> True | JsUndefined \<Rightarrow> False)"

definition failedAfterAllAttempts :: string where
  "failedAfterAllAttempts =
     [CHR 0xE2, CHR 0x9D, CHR 0x8C] @
     '' Failed to get response after multiple attempts. Please try again later.''"

subsection \<open>The retry loop\<close>

text \<open>
  What a call of \<open>askAI\<close> leaves: the string it resolves to (\<open>Inr\<close>) or the value it rejects
  with (\<open>Inl\<close>), the conversation history afterwards, and the backoff waits it made, in
  milliseconds and in order.
\<close>

record askAI_result =
  returned :: "js_thrown + string"
  history :: conversation
  waits :: "nat list"

text \<open>
  The \<open>for\<close> loop, from \<open>attempt\<close> on. \<open>answers attempt\<close> is what the HTTP capability does
  on that attempt; \<open>now\<close> is the clock reading when the two entries are added.
\<close>

function askAI_attempts ::
  "(int \<Rightarrow> http_outcome) \<Rightarrow> int \<Rightarrow> bool \<Rightarrow> string \<Rightarrow> int \<Rightarrow> conversation \<Rightarrow> int \<Rightarrow> askAI_result" where
  "askAI_attempts answers budget force prompt now h attempt =
     (if attempt \<le> budget then
        (case tryAttempt (answers attempt) of
           Inr finalResponse \<Rightarrow>
             \<lparr>returned = Inr finalResponse,
              history = addToHistory Assistant finalResponse now (addToHistory User prompt now h),
              waits = []\<rparr>
         | Inl err \<Rightarrow>
             if attempt = budget then
               \<lparr>returned = onLastFailure force h err, history = h, waits = []\<rparr>
             else
               (let waitTime = 2 ^ nat (attempt - 1) * 1000;
                    r = askAI_attempts answers budget force prompt now h (attempt + 1)
                in r\<lparr>waits := waitTime # waits r\<rparr>))
      else \<lparr>returned = Inr failedAfterAllAttempts, history = h, waits = []\<rparr>)"
  by pat_completeness auto
termination
  by (relation "measure (\<lambda>(answers, budget, force, prompt, now, h, attempt). nat (budget + 1 - attempt))")
     auto

declare askAI_attempts.simps [simp del]

definition askAI ::
  "(request_body \<Rightarrow> int \<Rightarrow> http_outcome) \<Rightarrow> editor option \<Rightarrow> string \<Rightarrow> askAI_options \<Rightarrow>
   int \<Rightarrow> conversation \<Rightarrow> askAI_result" where
  "askAI fetch ed prompt opts now h =
     askAI_attempts (fetch (requestBody ed prompt opts h))
       (orDefault MAX_RETRIES (retries opts)) (orDefault False (forceMode opts)) prompt now h 1"

text \<open>Stub HTTP capabilities and the options with every field absent.\<close>

definition completion :: "string \<Rightarrow> http_outcome" where
  "completion text = HttpResponse 200 ''OK''
     (Inr \<lparr>choices = Some [ApiChoice (Some (ApiMessage (Some text))) None], generated_text = None\<rparr>)"

definition stubAlways :: "http_outcome \<Rightarrow> request_body \<Rightarrow> int \<Rightarrow> http_outcome" where
  "stubAlways outcome body attempt = outcome"

definition stubFailsTwice :: "string \<Rightarrow> request_body \<Rightarrow> int \<Rightarrow> http_outcome" where
  "stubFailsTwice text body attempt = (if attempt < 3 then completion '''' else completion text)"

definition stubThrowsTwice :: "http_outcome \<Rightarrow> request_body \<Rightarrow> int \<Rightarrow> http_outcome" where
  "stubThrowsTwice outcome body attempt =
     (if attempt < 3 then FetchThrows JsUndefined else outcome)"

definition noOptions :: askAI_options where
  "noOptions = \<lparr>temperature = None, maxTokens = None, includeContext = None, retries = None,
     forceMode = None\<rparr>"

section \<open>The session (thaxuAIProvider.ts, class ThaxuAIProvider)\<close>

text \<open>
  The state that the handlers of the panel read and write: the five fields of the
  provider (\<open>chatHistory\<close> is the display log), the static conversation history of
  \<open>ApolloAI\<close>, the due times of the cooldown timers that \<open>setTimeout\<close> has scheduled and
  that have not run yet, and the clock that \<open>Date.now()\<close> reads. A handler runs to its
  next \<open>await\<close> at one reading of the clock. Messages posted to the webview and
  notifications shown to the user change none of these and are left out.
\<close>

record world =
  chatHistory :: "message list"
  forceAnswerCooldown :: bool
  forceAnswerEnabled :: bool
  mentorMode :: bool
  cooldownEndTime :: int
  conversationHistory :: conversation
  timers :: "int list"
  clock :: int

text \<open>The field initialisers of the class and of \<open>ApolloAI\<close>, at the time the panel opens.\<close>

definition newProvider :: "int \<Rightarrow> world" where
  "newProvider t =
     \<lparr>chatHistory = [], forceAnswerCooldown = False, forceAnswerEnabled = False,
      mentorMode = False, cooldownEndTime = 0, conversationHistory = [], timers = [],
      clock = t\<rparr>"

definition initializeChat :: "world \<Rightarrow> world" where
  "initializeChat w =
     w\<lparr>chatHistory := [], forceAnswerCooldown := False, forceAnswerEnabled := False,
       mentorMode := False, cooldownEndTime := 0\<rparr>"

definition clearChat :: "world \<Rightarrow> world" where
  "clearChat w =
     w\<lparr>chatHistory := [], forceAnswerCooldown := False, forceAnswerEnabled := False,
       mentorMode := False, cooldownEndTime := 0\<rparr>"

definition addUserMessage :: "string \<Rightarrow> world \<Rightarrow> world" where
  "addUserMessage msg w =
     w\<lparr>chatHistory := chatHistory w @ [\<lparr>role = User, content = msg, timestamp = clock w\<rparr>]\<rparr>"

text \<open>
  \<open>_startCooldown\<close>: the two flags, the end time, and the timer that \<open>setTimeout\<close>
  schedules 120000 ms from now. \<open>cooldownExpired\<close> is the callback of that timer, run
  for the timer due at \<open>due\<close>.
\<close>

definition startCooldown :: "world \<Rightarrow> world" where
  "startCooldown w =
     w\<lparr>forceAnswerCooldown := True, mentorMode := True,
       cooldownEndTime := clock w + 120000,
       timers := timers w @ [clock w + 120000]\<rparr>"

definition cooldownExpired :: "int \<Rightarrow> world \<Rightarrow> world" where
  "cooldownExpired due w =
     w\<lparr>forceAnswerCooldown := False, mentorMode := False, timers := remove1 due (timers w)\<rparr>"

text \<open>\<open>Math.ceil(ms / 1000)\<close> on an integer number of milliseconds.\<close>

definition ceilSeconds :: "int \<Rightarrow> int" where
  "ceilSeconds ms = - ((- ms) div 1000)"

definition generateSimpleMentorResponse :: "string \<Rightarrow> world \<Rightarrow> string" where
  "generateSimpleMentorResponse msg w =
     (let lowerMessage = toLowerCase msg in
      if str_includes lowerMessage ''python'' \<or> str_includes lowerMessage ''code'' \<or>
         str_includes lowerMessage ''function''
      then
        ''## '' @ [CHR 0xF0, CHR 0x9F, CHR 0x8E, CHR 0x93] @ '' Learning Mode (Qwen2-0.5B)'' @
        nl @
        nl @
        ''Let'' @ [CHR 0x27] @ ''s think step by step:'' @ nl @
        nl @
        ''**What to try:**'' @ nl @
        ''1. Break down the problem'' @ nl @
        ''2. Look up documentation'' @ nl @
        ''3. Start simple'' @ nl @
        ''4. Test your idea'' @ nl @
        nl @
        ''**Learning tip:** Practice makes perfect!'' @ nl @
        nl @
        ''*Force Answer cooldown: '' @
        intToString (ceilSeconds (cooldownEndTime w - clock w)) @ '' seconds*''
      else
        ''## '' @ [CHR 0xF0, CHR 0x9F, CHR 0x8E, CHR 0x93] @ '' Learning Mode (Qwen2-0.5B)'' @
        nl @
        nl @
        ''Good question! Consider:'' @ nl @
        nl @
        ''**Think about:**'' @ nl @
        ''- What do you want to achieve?'' @ nl @
        ''- What tools might help?'' @ nl @
        ''- How can you break it down?'' @ nl @
        nl @
        ''**Next step:** Try researching the basics first.'' @ nl @
        nl @
        ''*Cooldown: '' @
        intToString (ceilSeconds (cooldownEndTime w - clock w)) @ '' seconds*'')"

definition toggleForceAnswer :: "world \<Rightarrow> world" where
  "toggleForceAnswer w =
     (if forceAnswerCooldown w then w
      else w\<lparr>forceAnswerEnabled := \<not> forceAnswerEnabled w\<rparr>)"

text \<open>
  \<open>processMessage\<close>. \<open>replyContent\<close> is the content of the entry it pushes, from what
  \<open>askAI\<close> resolved to or rejected with; \<open>elapsed\<close> is the time the call took.
\<close>

definition apologyText :: string where
  "apologyText =
     ''I apologize, but I couldn'' @ [CHR 0x27] @
     ''t generate a proper response. Could you please rephrase your question?''"

definition replyContent :: "js_thrown + string \<Rightarrow> string" where
  "replyContent outcome =
     (case outcome of
        Inr response \<Rightarrow> if response \<noteq> [] then response else apologyText
      | Inl err \<Rightarrow>
          [CHR 0xE2, CHR 0x9D, CHR 0x8C] @ '' I encountered an error: '' @ js_String err @
          ''. Please try again.'')"

definition processMessageOptions :: "bool \<Rightarrow> askAI_options" where
  "processMessageOptions force =
     \<lparr>temperature = Some (if force then 0.1 else 0.3),
      maxTokens = Some (if force then 150 else 200),
      includeContext = Some True,
      retries = None,
      forceMode = Some force\<rparr>"

definition processMessage ::
  "(request_body \<Rightarrow> int \<Rightarrow> http_outcome) \<Rightarrow> editor option \<Rightarrow> nat \<Rightarrow> string \<Rightarrow> bool \<Rightarrow>
   world \<Rightarrow> world" where
  "processMessage fetch ed elapsed msg force w =
     (let finished = clock w + int elapsed;
          r = askAI fetch ed msg (processMessageOptions force) finished (conversationHistory w)
      in w\<lparr>clock := finished,
           conversationHistory := history r,
           chatHistory := chatHistory w @
             [\<lparr>role = Assistant, content = replyContent (returned r), timestamp = finished\<rparr>]\<rparr>)"

definition handleUserMessage ::
  "(request_body \<Rightarrow> int \<Rightarrow> http_outcome) \<Rightarrow> editor option \<Rightarrow> nat \<Rightarrow> string \<Rightarrow>
   world \<Rightarrow> world" where
  "handleUserMessage fetch ed elapsed msg w =
     (if trim msg = [] then w
      else if mentorMode w \<and> forceAnswerCooldown w \<and> \<not> forceAnswerEnabled w then
        (let w1 = addUserMessage msg w;
             mentorResponse = generateSimpleMentorResponse msg w1
         in w1\<lparr>chatHistory := chatHistory w1 @
               [\<lparr>role = Assistant, content = mentorResponse, timestamp = clock w1\<rparr>]\<rparr>)
      else
        (let w1 = addUserMessage msg w;
             w2 = processMessage fetch ed elapsed msg (forceAnswerEnabled w1) w1
         in if forceAnswerEnabled w2 \<and> \<not> forceAnswerCooldown w2 then startCooldown w2 else w2))"

text \<open>The role and content of every entry of a log, without the timestamps.\<close>

definition entries :: "message list \<Rightarrow> (role \<times> string) list" where
  "entries ms = map (\<lambda>m. (role m, content m)) ms"

section \<open>The states a session can reach\<close>

text \<open>
  The panel opens; then the handlers run one after the other, in any order, while the
  clock moves on. A timer callback runs at or after its due time, never before. The
  public methods \<open>addUserMessage\<close> and \<open>processMessage\<close> and the cooldown start are
  steps of their own too, so that every interleaving of the parts of
  \<open>handleUserMessage\<close> around its \<open>await\<close> with other handlers is a path of the relation.
\<close>

inductive reachable :: "world \<Rightarrow> bool" where
  opened: "reachable (newProvider t)"
| initialized: "reachable w \<Longrightarrow> reachable (initializeChat w)"
| handled: "reachable w \<Longrightarrow> reachable (handleUserMessage fetch ed elapsed msg w)"
| added: "reachable w \<Longrightarrow> reachable (addUserMessage msg w)"
| processed: "reachable w \<Longrightarrow> reachable (processMessage fetch ed elapsed msg force w)"
| cooldownStarted: "reachable w \<Longrightarrow> reachable (startCooldown w)"
| toggled: "reachable w \<Longrightarrow> reachable (toggleForceAnswer w)"
| cleared: "reachable w \<Longrightarrow> reachable (clearChat w)"
| timePassed: "reachable w \<Longrightarrow> reachable (w\<lparr>clock := clock w + int d\<rparr>)"
| expired: "reachable w \<Longrightarrow> due \<in> set (timers w) \<Longrightarrow> due \<le> clock w \<Longrightarrow>
            reachable (cooldownExpired due w)"

text \<open>Histories and session states used as concrete inputs.\<close>

definition sixQuestions :: conversation where
  "sixQuestions = replicate 6 \<lparr>role = User, content = ''hello'', timestamp = 0\<rparr>"

definition sevenQuestions :: conversation where
  "sevenQuestions = replicate 7 \<lparr>role = User, content = ''hello'', timestamp = 0\<rparr>"

definition afterHello :: world where
  "afterHello = handleUserMessage (stubAlways (completion ''Hi there'')) None 0 ''hello'' (newProvider 0)"

definition mentoring :: world where
  "mentoring = startCooldown (newProvider 0)"

definition inCooldown :: world where
  "inCooldown =
     handleUserMessage (stubAlways (completion ''Done'')) None 0 ''fix this''
       (toggleForceAnswer (newProvider 0))"

section \<open>The sliding window of the history\<close>

lemma addToHistory_sliceLast:
  "addToHistory r c t h = sliceLast 8 (h @ [\<lparr>role = r, content = c, timestamp = t\<rparr>])"
  by (simp add: addToHistory_def sliceLast_def Let_def)

lemma entryOf_triple:
  "entryOf (r, c, t) = \<lparr>role = r, content = c, timestamp = t\<rparr>"
  by (simp add: entryOf_def)

lemma sliceLast_snoc:
  "0 < n \<Longrightarrow> sliceLast n (sliceLast n xs @ [x]) = sliceLast n (xs @ [x])"
  by (cases "length xs \<le> n") (simp_all add: sliceLast_def Suc_diff_le)

lemma addAllToHistory_window:
  "addAllToHistory calls [] = sliceLast 8 (map entryOf calls)"
proof (induction calls rule: rev_induct)
  case Nil
  show ?case by (simp add: addAllToHistory_def sliceLast_def)
next
  case (snoc call calls)
  obtain r c t where call: "call = (r, c, t)" by (cases call)
  have "addAllToHistory (calls @ [call]) [] = addToHistory r c t (addAllToHistory calls [])"
    by (simp add: addAllToHistory_def call)
  also have "\<dots> = sliceLast 8 (sliceLast 8 (map entryOf calls) @ [entryOf call])"
    by (simp add: addToHistory_sliceLast snoc.IH entryOf_triple call)
  also have "\<dots> = sliceLast 8 (map entryOf (calls @ [call]))"
    by (simp add: sliceLast_snoc)
  finally show ?case .
qed

text \<open>
  Claim C5. Start from the empty history and make any sequence of \<open>addToHistory\<close> calls.
  After any prefix of the sequence (its first \<open>n\<close> calls) the history holds
  \<open>min k 8\<close> entries, \<open>k\<close> being the number of calls made, and they are the last
  \<open>min k 8\<close> appended entries in the order of the calls.
\<close>

theorem addToHistory_keeps_last_8:
  "length (addAllToHistory (take n calls) []) = min (length (take n calls)) 8 \<and>
   addAllToHistory (take n calls) [] =
     drop (length (take n calls) - min (length (take n calls)) 8) (map entryOf (take n calls))"
  by (simp add: addAllToHistory_window sliceLast_def min_def)

section \<open>The retry loop\<close>


lemma attempts_past_budget:
  "budget < attempt \<Longrightarrow>
   askAI_attempts answers budget force prompt now h attempt =
     \<lparr>returned = Inr failedAfterAllAttempts, history = h, waits = []\<rparr>"
  by (subst askAI_attempts.simps) simp

lemma attempts_success:
  "attempt \<le> budget \<Longrightarrow> tryAttempt (answers attempt) = Inr fin \<Longrightarrow>
   askAI_attempts answers budget force prompt now h attempt =
     \<lparr>returned = Inr fin,
      history = addToHistory Assistant fin now (addToHistory User prompt now h),
      waits = []\<rparr>"
  by (subst askAI_attempts.simps) simp

lemma attempts_last_failure:
  "tryAttempt (answers budget) = Inl err \<Longrightarrow>
   askAI_attempts answers budget force prompt now h budget =
     \<lparr>returned = onLastFailure force h err, history = h, waits = []\<rparr>"
  by (subst askAI_attempts.simps) simp

lemma attempts_retry:
  "attempt < budget \<Longrightarrow> tryAttempt (answers attempt) = Inl err \<Longrightarrow>
   askAI_attempts answers budget force prompt now h attempt =
     (askAI_attempts answers budget force prompt now h (attempt + 1))
       \<lparr>waits := 2 ^ nat (attempt - 1) * 1000 #
          waits (askAI_attempts answers budget force prompt now h (attempt + 1))\<rparr>"
  by (subst askAI_attempts.simps) (simp add: Let_def)

lemma upt_int_step:
  "1 \<le> a \<Longrightarrow> a < k \<Longrightarrow> [nat a ..< nat k] = nat a # [nat (a + 1) ..< nat k]"
  by (simp add: upt_conv_Cons nat_add_distrib)

lemma attempts_first_success:
  assumes "1 \<le> attempt" "attempt \<le> k" "k \<le> budget"
    and "\<forall>j. attempt \<le> j \<and> j < k \<longrightarrow> isl (tryAttempt (answers j))"
    and "tryAttempt (answers k) = Inr fin"
  shows "askAI_attempts answers budget force prompt now h attempt =
     \<lparr>returned = Inr fin,
      history = addToHistory Assistant fin now (addToHistory User prompt now h),
      waits = map (\<lambda>j. 2 ^ (j - 1) * 1000) [nat attempt ..< nat k]\<rparr>"
  using assms
proof (induction "nat (k - attempt)" arbitrary: attempt)
  case 0
  then have "attempt = k" by simp
  with 0 show ?case by (simp add: attempts_success)
next
  case (Suc n)
  then have lt: "attempt < k" by linarith
  with Suc.prems have "isl (tryAttempt (answers attempt))" by simp
  then obtain err where err: "tryAttempt (answers attempt) = Inl err"
    by (cases "tryAttempt (answers attempt)") simp_all
  have step: "askAI_attempts answers budget force prompt now h (attempt + 1) =
     \<lparr>returned = Inr fin,
      history = addToHistory Assistant fin now (addToHistory User prompt now h),
      waits = map (\<lambda>j. 2 ^ (j - 1) * 1000) [nat (attempt + 1) ..< nat k]\<rparr>"
    using Suc.hyps Suc.prems lt by (intro Suc.hyps(1)) auto
  have "attempt < budget" using lt Suc.prems by linarith
  then show ?case
    using err step Suc.prems(1) lt
    by (simp add: attempts_retry upt_int_step nat_diff_distrib)
qed

lemma attempts_all_fail:
  assumes "1 \<le> attempt" "attempt \<le> budget"
    and "\<forall>j. attempt \<le> j \<and> j < budget \<longrightarrow> isl (tryAttempt (answers j))"
    and "tryAttempt (answers budget) = Inl err"
  shows "askAI_attempts answers budget force prompt now h attempt =
     \<lparr>returned = onLastFailure force h err, history = h,
      waits = map (\<lambda>j. 2 ^ (j - 1) * 1000) [nat attempt ..< nat budget]\<rparr>"
  using assms
proof (induction "nat (budget - attempt)" arbitrary: attempt)
  case 0
  then have "attempt = budget" by simp
  with 0 show ?case by (simp add: attempts_last_failure)
next
  case (Suc n)
  then have lt: "attempt < budget" by linarith
  with Suc.prems have "isl (tryAttempt (answers attempt))" by simp
  then obtain e where e: "tryAttempt (answers attempt) = Inl e"
    by (cases "tryAttempt (answers attempt)") simp_all
  have step: "askAI_attempts answers budget force prompt now h (attempt + 1) =
     \<lparr>returned = onLastFailure force h err, history = h,
      waits = map (\<lambda>j. 2 ^ (j - 1) * 1000) [nat (attempt + 1) ..< nat budget]\<rparr>"
    using Suc.hyps Suc.prems lt by (intro Suc.hyps(1)) auto
  show ?case
    using e step Suc.prems(1) lt
    by (simp add: attempts_retry upt_int_step nat_diff_distrib)
qed

lemma attempts_history:
  "history (askAI_attempts answers budget force prompt now h attempt) = h \<or>
   (\<exists>k fin. attempt \<le> k \<and> k \<le> budget \<and> tryAttempt (answers k) = Inr fin \<and>
      returned (askAI_attempts answers budget force prompt now h attempt) = Inr fin \<and>
      history (askAI_attempts answers budget force prompt now h attempt) =
        addToHistory Assistant fin now (addToHistory User prompt now h))"
proof (induction answers budget force prompt now h attempt rule: askAI_attempts.induct)
  case (1 answers budget force prompt now h attempt)
  show ?case
  proof (cases "attempt \<le> budget")
    case False
    then show ?thesis by (simp add: attempts_past_budget)
  next
    case True
    show ?thesis
    proof (cases "tryAttempt (answers attempt)")
      case (Inr fin)
      with True show ?thesis by (auto simp: attempts_success)
    next
      case (Inl err)
      show ?thesis
      proof (cases "attempt = budget")
        case True
        with Inl show ?thesis by (simp add: attempts_last_failure)
      next
        case False
        with True have lt: "attempt < budget" by simp
        from "1.IH"[OF True Inl False refl]
        show ?thesis
          using lt Inl by (auto simp: attempts_retry)
      qed
    qed
  qed
qed

lemma attempts_returns_text:
  assumes "(\<forall>j. attempt \<le> j \<and> j \<le> budget \<longrightarrow> isl (tryAttempt (answers j))) \<longrightarrow>
           (\<forall>e. tryAttempt (answers budget) = Inl e \<longrightarrow> isErrorObject e)"
  shows "\<exists>txt. returned (askAI_attempts answers budget force prompt now h attempt) = Inr txt"
  using assms
proof (induction answers budget force prompt now h attempt rule: askAI_attempts.induct)
  case (1 answers budget force prompt now h attempt)
  show ?case
  proof (cases "attempt \<le> budget")
    case False
    then show ?thesis by (simp add: attempts_past_budget)
  next
    case True
    show ?thesis
    proof (cases "tryAttempt (answers attempt)")
      case (Inr fin)
      with True show ?thesis by (simp add: attempts_success)
    next
      case (Inl err)
      show ?thesis
      proof (cases "attempt = budget")
        case True
        with Inl "1.prems" have "isErrorObject err" by auto
        with True Inl show ?thesis
          by (cases err) (simp_all add: attempts_last_failure onLastFailure_def isErrorObject_def)
      next
        case False
        with True have lt: "attempt < budget" by simp
        have later: "(\<forall>j. attempt + 1 \<le> j \<and> j \<le> budget \<longrightarrow> isl (tryAttempt (answers j))) \<longrightarrow>
            (\<forall>e. tryAttempt (answers budget) = Inl e \<longrightarrow> isErrorObject e)"
        proof
          assume rest: "\<forall>j. attempt + 1 \<le> j \<and> j \<le> budget \<longrightarrow> isl (tryAttempt (answers j))"
          have "\<forall>j. attempt \<le> j \<and> j \<le> budget \<longrightarrow> isl (tryAttempt (answers j))"
          proof (intro allI impI)
            fix j assume j: "attempt \<le> j \<and> j \<le> budget"
            show "isl (tryAttempt (answers j))"
            proof (cases "j = attempt")
              case True
              with Inl show ?thesis by simp
            next
              case False
              with j have "attempt + 1 \<le> j \<and> j \<le> budget" by simp
              with rest show ?thesis by blast
            qed
          qed
          with "1.prems" show "\<forall>e. tryAttempt (answers budget) = Inl e \<longrightarrow> isErrorObject e"
            by blast
        qed
        from "1.IH"[OF True Inl False refl later]
        show ?thesis
          using lt Inl by (auto simp: attempts_retry)
      qed
    qed
  qed
qed

section \<open>The context analysis\<close>

lemma note_length:
  "notePrintQuestion c (ctx\<lparr>conversationLength := n\<rparr>) =
     (notePrintQuestion c ctx)\<lparr>conversationLength := n\<rparr>"
  "noteCodeQuestion c (ctx\<lparr>conversationLength := n\<rparr>) =
     (noteCodeQuestion c ctx)\<lparr>conversationLength := n\<rparr>"
  "noteCalculatorQuestion c (ctx\<lparr>conversationLength := n\<rparr>) =
     (noteCalculatorQuestion c ctx)\<lparr>conversationLength := n\<rparr>"
  "noteOutputPrediction c (ctx\<lparr>conversationLength := n\<rparr>) =
     (noteOutputPrediction c ctx)\<lparr>conversationLength := n\<rparr>"
  by (auto simp: notePrintQuestion_def noteCodeQuestion_def noteCalculatorQuestion_def
      noteOutputPrediction_def)

lemma note_keeps_length:
  "conversationLength (notePrintQuestion c ctx) = conversationLength ctx"
  "conversationLength (noteCodeQuestion c ctx) = conversationLength ctx"
  "conversationLength (noteCalculatorQuestion c ctx) = conversationLength ctx"
  "conversationLength (noteOutputPrediction c ctx) = conversationLength ctx"
  by (simp_all add: notePrintQuestion_def noteCodeQuestion_def noteCalculatorQuestion_def
      noteOutputPrediction_def)

lemma lastUserQuestion_length:
  "ctx\<lparr>conversationLength := n, lastUserQuestion := q\<rparr> =
     ctx\<lparr>lastUserQuestion := q, conversationLength := n\<rparr>"
  by simp

lemma analyzeMessage_length:
  "analyzeMessage (ctx\<lparr>conversationLength := n\<rparr>, uq, ar) msg =
     (case analyzeMessage (ctx, uq, ar) msg of
        (ctx', uq', ar') \<Rightarrow> (ctx'\<lparr>conversationLength := n\<rparr>, uq', ar'))"
  by (cases "role msg")
     (simp_all add: analyzeMessage_def Let_def lastUserQuestion_length note_length
        del: context_signals.update_convs)

lemma foldl_analyzeMessage_length:
  "foldl analyzeMessage (ctx\<lparr>conversationLength := n\<rparr>, uq, ar) ms =
     (case foldl analyzeMessage (ctx, uq, ar) ms of
        (ctx', uq', ar') \<Rightarrow> (ctx'\<lparr>conversationLength := n\<rparr>, uq', ar'))"
proof (induction ms arbitrary: ctx uq ar)
  case Nil
  show ?case by simp
next
  case (Cons m ms)
  obtain c u a where step: "analyzeMessage (ctx, uq, ar) m = (c, u, a)"
    by (cases "analyzeMessage (ctx, uq, ar) m") auto
  show ?case
    by (simp add: analyzeMessage_length step Cons.IH)
qed

lemma analyzeMessage_keeps_length:
  "analyzeMessage (ctx, uq, ar) msg = (ctx', uq', ar') \<Longrightarrow>
   conversationLength ctx' = conversationLength ctx"
  by (cases "role msg") (auto simp: analyzeMessage_def Let_def note_keeps_length)

lemma foldl_analyzeMessage_keeps_length:
  "foldl analyzeMessage (ctx, uq, ar) ms = (ctx', uq', ar') \<Longrightarrow>
   conversationLength ctx' = conversationLength ctx"
proof (induction ms arbitrary: ctx uq ar)
  case Nil
  then show ?case by simp
next
  case (Cons m ms)
  obtain c u a where step: "analyzeMessage (ctx, uq, ar) m = (c, u, a)"
    by (cases "analyzeMessage (ctx, uq, ar) m") auto
  from Cons.prems step have "foldl analyzeMessage (c, u, a) ms = (ctx', uq', ar')" by simp
  from Cons.IH[OF this] analyzeMessage_keeps_length[OF step] show ?case by simp
qed

lemma initialContext_length:
  "initialContext n = (initialContext m)\<lparr>conversationLength := n\<rparr>"
  by (simp add: initialContext_def)

lemma conversationLength_analyze:
  "conversationLength (analyzeConversationContext h) = length h"
proof -
  obtain c u a where f: "foldl analyzeMessage (initialContext (length h), [], []) (sliceLast 6 h) = (c, u, a)"
    by (cases "foldl analyzeMessage (initialContext (length h), [], []) (sliceLast 6 h)") auto
  from foldl_analyzeMessage_keeps_length[OF f] have "conversationLength c = length h"
    by (simp add: initialContext_def)
  then show ?thesis
    by (simp add: analyzeConversationContext_def f Let_def determineProgression_def
        checkTopicContinuity_def)
qed

lemma sliceLast_eq_lengths:
  assumes "sliceLast 6 h1 = sliceLast 6 h2"
  shows "length h1 = length h2 \<or> (6 \<le> length h1 \<and> 6 \<le> length h2)"
proof -
  from assms have "length (sliceLast 6 h1) = length (sliceLast 6 h2)" by simp
  then show ?thesis by (simp add: sliceLast_def) arith
qed

lemma determineProgression_length:
  "(4 < n \<longleftrightarrow> 4 < m) \<Longrightarrow> (2 < n \<longleftrightarrow> 2 < m) \<Longrightarrow> conversationLength ctx = m \<Longrightarrow>
   determineProgression (ctx\<lparr>conversationLength := n\<rparr>) =
     (determineProgression ctx)\<lparr>conversationLength := n\<rparr>"
  by (simp add: determineProgression_def Let_def)

lemma checkTopicContinuity_length:
  "checkTopicContinuity uq (ctx\<lparr>conversationLength := n\<rparr>) =
     (checkTopicContinuity uq ctx)\<lparr>conversationLength := n\<rparr>"
  by (simp add: checkTopicContinuity_def Let_def)

lemma checkTopicContinuity_keeps_length:
  "conversationLength (checkTopicContinuity uq ctx) = conversationLength ctx"
  by (simp add: checkTopicContinuity_def Let_def)

text \<open>
  Claim C9, as the code has it. The analysis reads the last 6 entries of the history and,
  for \<open>conversationLength\<close>, the length of the whole history: two histories with the
  same last 6 entries (the same whole history when shorter) get the same signals but
  for \<open>conversationLength\<close>, which is the length of each.
\<close>

theorem analysis_from_last_6_and_length:
  assumes "sliceLast 6 h1 = sliceLast 6 h2"
  shows "analyzeConversationContext h1 =
           (analyzeConversationContext h2)\<lparr>conversationLength := length h1\<rparr> \<and>
         conversationLength (analyzeConversationContext h1) = length h1"
proof -
  obtain c u a where f: "foldl analyzeMessage (initialContext (length h2), [], []) (sliceLast 6 h2) = (c, u, a)"
    by (cases "foldl analyzeMessage (initialContext (length h2), [], []) (sliceLast 6 h2)") auto
  have len: "conversationLength c = length h2"
    using foldl_analyzeMessage_keeps_length[OF f] by (simp add: initialContext_def)
  have f1: "foldl analyzeMessage (initialContext (length h1), [], []) (sliceLast 6 h1) =
      (c\<lparr>conversationLength := length h1\<rparr>, u, a)"
    using foldl_analyzeMessage_length[where ctx = "initialContext (length h2)" and n = "length h1"
        and uq = "[]" and ar = "[]" and ms = "sliceLast 6 h2"]
    by (simp add: assms f initialContext_length[where n = "length h1" and m = "length h2"])
  from sliceLast_eq_lengths[OF assms]
  have tests: "(4 < length h1 \<longleftrightarrow> 4 < length h2)" "(2 < length h1 \<longleftrightarrow> 2 < length h2)"
    by auto
  have "analyzeConversationContext h1 =
      determineProgression ((checkTopicContinuity u c)\<lparr>conversationLength := length h1\<rparr>)"
    by (simp add: analyzeConversationContext_def f1 Let_def checkTopicContinuity_length)
  also have "\<dots> = (determineProgression (checkTopicContinuity u c))\<lparr>conversationLength := length h1\<rparr>"
    by (rule determineProgression_length[OF tests]) (simp add: checkTopicContinuity_keeps_length len)
  also have "\<dots> = (analyzeConversationContext h2)\<lparr>conversationLength := length h1\<rparr>"
    by (simp add: analyzeConversationContext_def f Let_def)
  finally show ?thesis by (simp add: conversationLength_analyze)
qed

lemma six_seven: "sliceLast 6 sixQuestions = sliceLast 6 sevenQuestions"
  by (simp add: sliceLast_def sixQuestions_def sevenQuestions_def)

theorem analysis_from_last_6_and_length_witness:
  "sliceLast 6 sixQuestions = sliceLast 6 sevenQuestions \<and>
   analyzeConversationContext sixQuestions =
     (analyzeConversationContext sevenQuestions)\<lparr>conversationLength := 6\<rparr> \<and>
   conversationLength (analyzeConversationContext sixQuestions) = 6"
  using analysis_from_last_6_and_length[OF six_seven] six_seven
  by (simp add: sixQuestions_def)

text \<open>
  The claim as stated fails: a history of six entries and one of seven with the same last
  six differ in \<open>conversationLength\<close>.
\<close>

theorem analysis_not_from_last_6_counterexample:
  "sliceLast 6 sixQuestions = sliceLast 6 sevenQuestions \<and>
   conversationLength (analyzeConversationContext sixQuestions) = 6 \<and>
   conversationLength (analyzeConversationContext sevenQuestions) = 7 \<and>
   analyzeConversationContext sixQuestions \<noteq> analyzeConversationContext sevenQuestions"
proof -
  have a: "conversationLength (analyzeConversationContext sixQuestions) = 6"
    by (simp add: conversationLength_analyze sixQuestions_def)
  have b: "conversationLength (analyzeConversationContext sevenQuestions) = 7"
    by (simp add: conversationLength_analyze sevenQuestions_def)
  from a b have "analyzeConversationContext sixQuestions \<noteq> analyzeConversationContext sevenQuestions"
    by auto
  with a b six_seven show ?thesis by simp
qed

section \<open>The remote call and the session operations\<close>

lemma completion_ok:
  "txt \<noteq> [] \<Longrightarrow> tryAttempt (completion txt) = Inr (trim txt)"
  by (simp add: tryAttempt_def completion_def extractResponseText_def firstChoiceMessage_def
      orDefault_def)

lemma completion_empty:
  "tryAttempt (completion '''') = Inl (newError ''Empty response from AI service'')"
  by (simp add: tryAttempt_def completion_def extractResponseText_def firstChoiceMessage_def
      orDefault_def)

lemma trim_hello: "trim ''hello'' = ''hello''"
  by (simp add: trim_def isWhiteSpace_def)

lemma trim_Hi_there: "trim ''Hi there'' = ''Hi there''"
  by (simp add: trim_def isWhiteSpace_def)

lemma trim_fix_this: "trim ''fix this'' = ''fix this''"
  by (simp add: trim_def isWhiteSpace_def)

lemma trim_Done: "trim ''Done'' = ''Done''"
  by (simp add: trim_def isWhiteSpace_def)

lemma askAI_first_success:
  assumes "1 \<le> k" "k \<le> orDefault MAX_RETRIES (retries opts)"
    and "\<forall>j. 1 \<le> j \<and> j < k \<longrightarrow> isl (tryAttempt (fetch (requestBody ed prompt opts h) j))"
    and "tryAttempt (fetch (requestBody ed prompt opts h) k) = Inr fin"
  shows "askAI fetch ed prompt opts now h =
     \<lparr>returned = Inr fin,
      history = addToHistory Assistant fin now (addToHistory User prompt now h),
      waits = map (\<lambda>j. 2 ^ (j - 1) * 1000) [1 ..< nat k]\<rparr>"
  using attempts_first_success[of 1 k "orDefault MAX_RETRIES (retries opts)"
      "fetch (requestBody ed prompt opts h)" fin "orDefault False (forceMode opts)" prompt now h]
    assms
  by (simp add: askAI_def)

lemma askAI_all_fail:
  assumes "1 \<le> orDefault MAX_RETRIES (retries opts)"
    and "\<forall>j. 1 \<le> j \<and> j < orDefault MAX_RETRIES (retries opts) \<longrightarrow>
           isl (tryAttempt (fetch (requestBody ed prompt opts h) j))"
    and "tryAttempt (fetch (requestBody ed prompt opts h) (orDefault MAX_RETRIES (retries opts))) = Inl err"
  shows "askAI fetch ed prompt opts now h =
     \<lparr>returned = onLastFailure (orDefault False (forceMode opts)) h err, history = h,
      waits = map (\<lambda>j. 2 ^ (j - 1) * 1000) [1 ..< nat (orDefault MAX_RETRIES (retries opts))]\<rparr>"
  using attempts_all_fail[of 1 "orDefault MAX_RETRIES (retries opts)"
      "fetch (requestBody ed prompt opts h)" err "orDefault False (forceMode opts)" prompt now h]
    assms
  by (simp add: askAI_def)

lemma askAI_history:
  "history (askAI fetch ed prompt opts now h) = h \<or>
   (\<exists>k fin. 1 \<le> k \<and> k \<le> orDefault MAX_RETRIES (retries opts) \<and>
      tryAttempt (fetch (requestBody ed prompt opts h) k) = Inr fin \<and>
      returned (askAI fetch ed prompt opts now h) = Inr fin \<and>
      history (askAI fetch ed prompt opts now h) =
        addToHistory Assistant fin now (addToHistory User prompt now h))"
  unfolding askAI_def by (rule attempts_history)

lemma processMessage_fields:
  "forceAnswerCooldown (processMessage fetch ed elapsed msg force w) = forceAnswerCooldown w"
  "forceAnswerEnabled (processMessage fetch ed elapsed msg force w) = forceAnswerEnabled w"
  "mentorMode (processMessage fetch ed elapsed msg force w) = mentorMode w"
  "cooldownEndTime (processMessage fetch ed elapsed msg force w) = cooldownEndTime w"
  "timers (processMessage fetch ed elapsed msg force w) = timers w"
  "clock (processMessage fetch ed elapsed msg force w) = clock w + int elapsed"
  "conversationHistory (processMessage fetch ed elapsed msg force w) =
     history (askAI fetch ed msg (processMessageOptions force) (clock w + int elapsed)
       (conversationHistory w))"
  "chatHistory (processMessage fetch ed elapsed msg force w) =
     chatHistory w @
       [\<lparr>role = Assistant,
         content = replyContent (returned (askAI fetch ed msg (processMessageOptions force)
           (clock w + int elapsed) (conversationHistory w))),
         timestamp = clock w + int elapsed\<rparr>]"
  by (simp_all add: processMessage_def Let_def)

lemma addUserMessage_fields:
  "forceAnswerCooldown (addUserMessage msg w) = forceAnswerCooldown w"
  "forceAnswerEnabled (addUserMessage msg w) = forceAnswerEnabled w"
  "mentorMode (addUserMessage msg w) = mentorMode w"
  "cooldownEndTime (addUserMessage msg w) = cooldownEndTime w"
  "timers (addUserMessage msg w) = timers w"
  "clock (addUserMessage msg w) = clock w"
  "conversationHistory (addUserMessage msg w) = conversationHistory w"
  "chatHistory (addUserMessage msg w) =
     chatHistory w @ [\<lparr>role = User, content = msg, timestamp = clock w\<rparr>]"
  by (simp_all add: addUserMessage_def)

lemma startCooldown_fields:
  "forceAnswerCooldown (startCooldown w)"
  "forceAnswerEnabled (startCooldown w) = forceAnswerEnabled w"
  "mentorMode (startCooldown w)"
  "cooldownEndTime (startCooldown w) = clock w + 120000"
  "timers (startCooldown w) = timers w @ [clock w + 120000]"
  "clock (startCooldown w) = clock w"
  "conversationHistory (startCooldown w) = conversationHistory w"
  "chatHistory (startCooldown w) = chatHistory w"
  by (simp_all add: startCooldown_def)

lemma handleUserMessage_remote:
  assumes "trim msg \<noteq> []" "\<not> (mentorMode w \<and> forceAnswerCooldown w \<and> \<not> forceAnswerEnabled w)"
  shows "conversationHistory (handleUserMessage fetch ed elapsed msg w) =
           history (askAI fetch ed msg (processMessageOptions (forceAnswerEnabled w))
             (clock w + int elapsed) (conversationHistory w))"
    and "chatHistory (handleUserMessage fetch ed elapsed msg w) =
           chatHistory w @
             [\<lparr>role = User, content = msg, timestamp = clock w\<rparr>,
              \<lparr>role = Assistant,
               content = replyContent (returned (askAI fetch ed msg
                 (processMessageOptions (forceAnswerEnabled w)) (clock w + int elapsed)
                 (conversationHistory w))),
               timestamp = clock w + int elapsed\<rparr>]"
  using assms
  by (auto simp: handleUserMessage_def Let_def processMessage_fields addUserMessage_fields
      startCooldown_fields)

lemma mentor_response_reads:
  "generateSimpleMentorResponse msg (addUserMessage msg' w) = generateSimpleMentorResponse msg w"
  by (simp add: generateSimpleMentorResponse_def addUserMessage_fields Let_def cong: if_cong)

lemma handleUserMessage_mentor:
  assumes "mentorMode w" "forceAnswerCooldown w" "\<not> forceAnswerEnabled w"
  shows "conversationHistory (handleUserMessage fetch ed elapsed msg w) = conversationHistory w"
    and "trim msg \<noteq> [] \<Longrightarrow> chatHistory (handleUserMessage fetch ed elapsed msg w) =
           chatHistory w @
             [\<lparr>role = User, content = msg, timestamp = clock w\<rparr>,
              \<lparr>role = Assistant, content = generateSimpleMentorResponse msg w,
               timestamp = clock w\<rparr>]"
  using assms
  by (simp_all add: handleUserMessage_def Let_def addUserMessage_fields mentor_response_reads)

lemma handleUserMessage_blank:
  "trim msg = [] \<Longrightarrow> handleUserMessage fetch ed elapsed msg w = w"
  by (simp add: handleUserMessage_def)

section \<open>Clearing and toggling\<close>

lemma afterHello_value:
  "afterHello =
     \<lparr>chatHistory =
        [\<lparr>role = User, content = ''hello'', timestamp = 0\<rparr>,
         \<lparr>role = Assistant, content = ''Hi there'', timestamp = 0\<rparr>],
      forceAnswerCooldown = False, forceAnswerEnabled = False, mentorMode = False,
      cooldownEndTime = 0,
      conversationHistory =
        [\<lparr>role = User, content = ''hello'', timestamp = 0\<rparr>,
         \<lparr>role = Assistant, content = ''Hi there'', timestamp = 0\<rparr>],
      timers = [], clock = 0\<rparr>"
  by (simp add: afterHello_def handleUserMessage_def trim_hello newProvider_def
      addUserMessage_def processMessage_def Let_def askAI_def processMessageOptions_def
      orDefault_def MAX_RETRIES_def stubAlways_def attempts_success completion_ok
      trim_Hi_there addToHistory_def replyContent_def)

lemma inCooldown_value:
  "inCooldown =
     \<lparr>chatHistory =
        [\<lparr>role = User, content = ''fix this'', timestamp = 0\<rparr>,
         \<lparr>role = Assistant, content = ''Done'', timestamp = 0\<rparr>],
      forceAnswerCooldown = True, forceAnswerEnabled = True, mentorMode = True,
      cooldownEndTime = 120000,
      conversationHistory =
        [\<lparr>role = User, content = ''fix this'', timestamp = 0\<rparr>,
         \<lparr>role = Assistant, content = ''Done'', timestamp = 0\<rparr>],
      timers = [120000], clock = 0\<rparr>"
  by (simp add: inCooldown_def handleUserMessage_def trim_fix_this newProvider_def
      toggleForceAnswer_def startCooldown_def
      addUserMessage_def processMessage_def Let_def askAI_def processMessageOptions_def
      orDefault_def MAX_RETRIES_def stubAlways_def attempts_success completion_ok
      trim_Done addToHistory_def replyContent_def)

lemma inCooldown_reachable: "reachable inCooldown"
  unfolding inCooldown_def by (intro reachable.handled reachable.toggled reachable.opened)

text \<open>
  Claim C1, as the code has it. \<open>clearChat\<close> resets the five fields of the session to
  their defaults (the end time to 0, the display log to the empty list). It does not touch
  the shared conversation history; \<open>ApolloAI.clearHistory\<close> is what empties that, and
  after it \<open>getHistory\<close> is empty.
\<close>

theorem clearChat_resets_session_only:
  "forceAnswerEnabled (clearChat w) = False \<and>
   forceAnswerCooldown (clearChat w) = False \<and>
   cooldownEndTime (clearChat w) = 0 \<and>
   mentorMode (clearChat w) = False \<and>
   chatHistory (clearChat w) = [] \<and>
   conversationHistory (clearChat w) = conversationHistory w \<and>
   getHistory (clearHistory (conversationHistory w)) = []"
  by (simp add: clearChat_def clearHistory_def getHistory_def)

text \<open>
  The claim as stated fails: after one exchange and then \<open>clearChat\<close>, the display log is
  empty and \<open>getHistory\<close> still returns the two entries of the exchange.
\<close>

theorem clearChat_keeps_history_counterexample:
  "chatHistory (clearChat afterHello) = [] \<and>
   getHistory (conversationHistory (clearChat afterHello)) =
     [\<lparr>role = User, content = ''hello'', timestamp = 0\<rparr>,
      \<lparr>role = Assistant, content = ''Hi there'', timestamp = 0\<rparr>] \<and>
   getHistory (conversationHistory (clearChat afterHello)) \<noteq> []"
  by (simp add: afterHello_value clearChat_def getHistory_def)

text \<open>
  Claim C3. \<open>toggleForceAnswer\<close> while the cooldown is active changes nothing: the flag
  \<open>forceAnswerEnabled\<close> keeps its value and every other field of the session is as before.
\<close>

theorem toggleForceAnswer_rejected_in_cooldown:
  "forceAnswerCooldown w \<Longrightarrow> toggleForceAnswer w = w"
  by (simp add: toggleForceAnswer_def)

theorem toggleForceAnswer_rejected_in_cooldown_witness:
  "forceAnswerCooldown inCooldown \<and> toggleForceAnswer inCooldown = inCooldown \<and>
   forceAnswerEnabled (toggleForceAnswer inCooldown)"
  using toggleForceAnswer_rejected_in_cooldown[of inCooldown]
  by (simp add: inCooldown_value)

section \<open>The cooldown invariant\<close>

lemma cooldown_has_timer:
  "reachable w \<Longrightarrow> forceAnswerCooldown w \<longrightarrow> mentorMode w \<and> cooldownEndTime w \<in> set (timers w)"
proof (induction rule: reachable.induct)
  case (opened t)
  show ?case by (simp add: newProvider_def)
next
  case (initialized w)
  show ?case by (simp add: initializeChat_def)
next
  case (handled w fetch ed elapsed msg)
  then show ?case
    by (simp add: handleUserMessage_def Let_def processMessage_fields addUserMessage_fields
        startCooldown_fields)
next
  case (added w msg)
  then show ?case by (simp add: addUserMessage_fields)
next
  case (processed w fetch ed elapsed msg force)
  then show ?case by (simp add: processMessage_fields)
next
  case (cooldownStarted w)
  show ?case by (simp add: startCooldown_fields)
next
  case (toggled w)
  then show ?case by (simp add: toggleForceAnswer_def)
next
  case (cleared w)
  show ?case by (simp add: clearChat_def)
next
  case (timePassed w d)
  then show ?case by simp
next
  case (expired w due)
  show ?case by (simp add: cooldownExpired_def)
qed

text \<open>
  Claim C4, as the code has it. In every state a session can reach, an active cooldown
  means that mentor mode is active and that the expiry timer due at \<open>cooldownEndTime\<close>
  is scheduled and has not run yet. So \<open>cooldownEndTime\<close> is in the future as long as no
  scheduled expiry is overdue.
\<close>

theorem cooldown_invariant:
  assumes "reachable w" "forceAnswerCooldown w"
  shows "mentorMode w \<and> cooldownEndTime w \<in> set (timers w) \<and>
         (list_all (\<lambda>due. clock w < due) (timers w) \<longrightarrow> clock w < cooldownEndTime w)"
  using cooldown_has_timer[OF assms(1)] assms(2) by (auto simp: list_all_iff)

theorem cooldown_invariant_witness:
  "reachable inCooldown \<and> forceAnswerCooldown inCooldown \<and> mentorMode inCooldown \<and>
   cooldownEndTime inCooldown \<in> set (timers inCooldown) \<and>
   list_all (\<lambda>due. clock inCooldown < due) (timers inCooldown) \<and>
   clock inCooldown < cooldownEndTime inCooldown"
  using cooldown_invariant[OF inCooldown_reachable] inCooldown_reachable
  by (simp add: inCooldown_value)

text \<open>
  The claim as stated fails: a timer callback runs at or after its due time, and until it
  has run the cooldown stays active although \<open>cooldownEndTime\<close> has passed.
\<close>

theorem cooldown_end_time_passed_counterexample:
  "reachable (inCooldown\<lparr>clock := 120001\<rparr>) \<and>
   forceAnswerCooldown (inCooldown\<lparr>clock := 120001\<rparr>) \<and>
   \<not> clock (inCooldown\<lparr>clock := 120001\<rparr>) < cooldownEndTime (inCooldown\<lparr>clock := 120001\<rparr>)"
  using reachable.timePassed[OF inCooldown_reachable, of 120001]
  by (simp add: inCooldown_value)

section \<open>Retries, backoff and the result of the remote call\<close>

text \<open>
  Claim C6. Let the call end at attempt \<open>k\<close>: the attempts before \<open>k\<close> fail, and attempt
  \<open>k\<close> succeeds or is the last of the budget (3 when the option is absent). Then the
  waits are \<open>2 ^ (j - 1) * 1000\<close> ms after each failed attempt \<open>j < k\<close>, in that order, and
  there is none after attempt \<open>k\<close>; when attempt \<open>k\<close> succeeds, its text is the result.
  With a stub that fails twice and then succeeds this gives the two waits 1000 and 2000.
\<close>

theorem askAI_backoff_schedule:
  assumes "1 \<le> k" and "k \<le> orDefault MAX_RETRIES (retries opts)"
    and "\<forall>j. 1 \<le> j \<and> j < k \<longrightarrow> isl (tryAttempt (fetch (requestBody ed prompt opts h) j))"
    and "isl (tryAttempt (fetch (requestBody ed prompt opts h) k)) \<longrightarrow>
           k = orDefault MAX_RETRIES (retries opts)"
  shows "waits (askAI fetch ed prompt opts now h) = map (\<lambda>j. 2 ^ (j - 1) * 1000) [1 ..< nat k] \<and>
         (\<forall>fin. tryAttempt (fetch (requestBody ed prompt opts h) k) = Inr fin \<longrightarrow>
            returned (askAI fetch ed prompt opts now h) = Inr fin)"
proof (cases "tryAttempt (fetch (requestBody ed prompt opts h) k)")
  case (Inr fin)
  from askAI_first_success[where k = k and opts = opts and fetch = fetch and ed = ed
      and prompt = prompt and h = h and fin = fin and now = now] assms(1,2,3) Inr
  show ?thesis by simp
next
  case (Inl err)
  with assms(4) have k: "k = orDefault MAX_RETRIES (retries opts)" by simp
  from askAI_all_fail[where opts = opts and fetch = fetch and ed = ed and prompt = prompt
      and h = h and err = err and now = now] assms(1,3) Inl k
  show ?thesis by simp
qed

lemma upt_1_3: "[Suc 0..<3] = [Suc 0, 2]"
  by code_simp

lemma stubFailsTwice_early:
  "j < 3 \<Longrightarrow> isl (tryAttempt (stubFailsTwice txt body j))"
  by (simp add: stubFailsTwice_def completion_empty)

theorem askAI_backoff_schedule_witness:
  "isl (tryAttempt (stubFailsTwice ''Hi there'' (requestBody None ''hello'' noOptions []) 1)) \<and>
   isl (tryAttempt (stubFailsTwice ''Hi there'' (requestBody None ''hello'' noOptions []) 2)) \<and>
   waits (askAI (stubFailsTwice ''Hi there'') None ''hello'' noOptions 0 []) = [1000, 2000] \<and>
   returned (askAI (stubFailsTwice ''Hi there'') None ''hello'' noOptions 0 []) = Inr ''Hi there''"
  using askAI_backoff_schedule[where k = 3 and opts = noOptions
      and fetch = "stubFailsTwice ''Hi there''" and ed = None and prompt = "''hello''"
      and h = "[]" and now = 0]
  by (simp add: stubFailsTwice_early noOptions_def orDefault_def MAX_RETRIES_def upt_1_3)
     (simp add: stubFailsTwice_def completion_ok trim_Hi_there)

lemma exhaustedText_cases:
  "exhaustedText force h name msg =
     (if str_includes msg ''Rate limit''
      then rateLimitText (h \<noteq> []) (analyzeConversationContext h)
      else if str_includes msg ''Authentication'' then authText
      else if str_includes msg ''fetch'' \<or> name = ''AbortError''
      then networkText (h \<noteq> []) (analyzeConversationContext h)
      else genericText (if force then ''direct answer'' else ''learning guidance'') msg
             (h \<noteq> []) (analyzeConversationContext h))"
  by (simp add: exhaustedText_def failureKind_def Let_def getHistory_def)

lemma stubAlways_fails:
  "tryAttempt outcome = Inl err \<Longrightarrow> tryAttempt (stubAlways outcome body j) = Inl err"
  by (simp add: stubAlways_def)

lemma noOptions_budget:
  "orDefault MAX_RETRIES (retries noOptions) = 3"
  "orDefault False (forceMode noOptions) = False"
  by (simp_all add: noOptions_def orDefault_def MAX_RETRIES_def)

lemma rate_limit_message:
  "\<exists>msg. tryAttempt (HttpResponse 429 statusText body) = Inl (JsError ''Error'' msg) \<and>
         str_includes msg ''Rate limit''"
  by (simp add: tryAttempt_def statusError_def newError_def)

lemma authentication_message:
  "\<exists>msg. tryAttempt (HttpResponse 401 statusText body) = Inl (JsError ''Error'' msg) \<and>
         \<not> str_includes msg ''Rate limit'' \<and> str_includes msg ''Authentication''"
  by (simp add: tryAttempt_def statusError_def newError_def)

lemma aborted_message:
  "\<not> str_includes ''This operation was aborted'' ''Rate limit'' \<and>
   \<not> str_includes ''This operation was aborted'' ''Authentication'' \<and>
   \<not> str_includes ''This operation was aborted'' ''fetch''"
  by simp

lemma empty_response_message:
  "\<not> str_includes ''Empty response from AI service'' ''Rate limit'' \<and>
   \<not> str_includes ''Empty response from AI service'' ''Authentication'' \<and>
   \<not> str_includes ''Empty response from AI service'' ''fetch''"
  by simp

lemma stubThrowsTwice_attempts:
  "j < 3 \<Longrightarrow> tryAttempt (stubThrowsTwice outcome body j) = Inl JsUndefined"
  "tryAttempt (stubThrowsTwice outcome body 3) = tryAttempt outcome"
  by (simp_all add: stubThrowsTwice_def tryAttempt_def)

text \<open>
  Claim C7, as the code has it. Whatever the HTTP capability does on the attempts
  (\<open>answers\<close>) of a budget \<open>n\<close>, \<open>askAI\<close> resolves to a text, but for one case: all
  attempts fail and the value thrown on the last one is not an \<open>Error\<close> object. And
  when all attempts of a budget of at least 1 fail and the last one throws an \<open>Error\<close>
  object, the text is the template of its kind: the rate limit template when the message
  includes \<open>Rate limit\<close>, else the authentication template when it includes
  \<open>Authentication\<close>, else the network template when it includes \<open>fetch\<close> or the name is
  \<open>AbortError\<close>, else the generic template around the message.
\<close>

theorem askAI_returns_text:
  assumes "n = orDefault MAX_RETRIES (retries opts)"
    and "answers = fetch (requestBody ed prompt opts h)"
    and "1 \<le> n \<and> (\<forall>j. 1 \<le> j \<and> j \<le> n \<longrightarrow> isl (tryAttempt (answers j))) \<longrightarrow>
         (\<forall>e. tryAttempt (answers n) = Inl e \<longrightarrow> isErrorObject e)"
  shows "(\<exists>txt. returned (askAI fetch ed prompt opts now h) = Inr txt) \<and>
         (1 \<le> n \<and> (\<forall>j. 1 \<le> j \<and> j \<le> n \<longrightarrow> isl (tryAttempt (answers j))) \<and>
          tryAttempt (answers n) = Inl (JsError name msg) \<longrightarrow>
          returned (askAI fetch ed prompt opts now h) =
            Inr (if str_includes msg ''Rate limit''
                 then rateLimitText (h \<noteq> []) (analyzeConversationContext h)
                 else if str_includes msg ''Authentication'' then authText
                 else if str_includes msg ''fetch'' \<or> name = ''AbortError''
                 then networkText (h \<noteq> []) (analyzeConversationContext h)
                 else genericText
                        (if orDefault False (forceMode opts) then ''direct answer''
                         else ''learning guidance'')
                        msg (h \<noteq> []) (analyzeConversationContext h)))"
proof (intro conjI impI)
  show "\<exists>txt. returned (askAI fetch ed prompt opts now h) = Inr txt"
  proof (cases "1 \<le> n")
    case True
    with assms(3) have "(\<forall>j. 1 \<le> j \<and> j \<le> n \<longrightarrow> isl (tryAttempt (answers j))) \<longrightarrow>
        (\<forall>e. tryAttempt (answers n) = Inl e \<longrightarrow> isErrorObject e)"
      by blast
    from attempts_returns_text[OF this] show ?thesis
      by (simp add: askAI_def assms(1,2))
  next
    case False
    then show ?thesis
      by (simp add: askAI_def assms(1)[symmetric] attempts_past_budget)
  qed
next
  assume fails: "1 \<le> n \<and> (\<forall>j. 1 \<le> j \<and> j \<le> n \<longrightarrow> isl (tryAttempt (answers j))) \<and>
      tryAttempt (answers n) = Inl (JsError name msg)"
  from askAI_all_fail[where opts = opts and fetch = fetch and ed = ed and prompt = prompt
      and h = h and err = "JsError name msg" and now = now] fails
  have "returned (askAI fetch ed prompt opts now h) =
      onLastFailure (orDefault False (forceMode opts)) h (JsError name msg)"
    by (simp add: assms(1,2))
  then show "returned (askAI fetch ed prompt opts now h) =
      Inr (if str_includes msg ''Rate limit''
           then rateLimitText (h \<noteq> []) (analyzeConversationContext h)
           else if str_includes msg ''Authentication'' then authText
           else if str_includes msg ''fetch'' \<or> name = ''AbortError''
           then networkText (h \<noteq> []) (analyzeConversationContext h)
           else genericText
                  (if orDefault False (forceMode opts) then ''direct answer''
                   else ''learning guidance'')
                  msg (h \<noteq> []) (analyzeConversationContext h))"
    by (simp add: onLastFailure_def exhaustedText_cases)
qed

text \<open>
  The four kinds at a budget of 3: status 429, status 401, an aborted request and an empty
  completion on every attempt; and a capability that throws \<open>undefined\<close> twice and then
  answers 429.
\<close>

theorem askAI_returns_text_witness:
  "returned (askAI (stubAlways (HttpResponse 429 ''Too Many Requests'' (Inl JsUndefined))) None
      ''hello'' noOptions 0 []) = Inr (rateLimitText False (analyzeConversationContext [])) \<and>
   returned (askAI (stubAlways (HttpResponse 401 ''Unauthorized'' (Inl JsUndefined))) None
      ''hello'' noOptions 0 []) = Inr authText \<and>
   returned (askAI (stubAlways (FetchThrows (JsError ''AbortError'' ''This operation was aborted'')))
      None ''hello'' noOptions 0 []) = Inr (networkText False (analyzeConversationContext [])) \<and>
   returned (askAI (stubAlways (completion '''')) None ''hello'' noOptions 0 []) =
     Inr (genericText ''learning guidance'' ''Empty response from AI service'' False
       (analyzeConversationContext [])) \<and>
   returned (askAI (stubThrowsTwice (HttpResponse 429 ''Too Many Requests'' (Inl JsUndefined)))
      None ''hello'' noOptions 0 []) = Inr (rateLimitText False (analyzeConversationContext []))"
proof -
  let ?body = "requestBody None ''hello'' noOptions []"
  have always: "returned (askAI (stubAlways outcome) None ''hello'' noOptions 0 []) =
      Inr (if str_includes msg ''Rate limit''
           then rateLimitText False (analyzeConversationContext [])
           else if str_includes msg ''Authentication'' then authText
           else if str_includes msg ''fetch'' \<or> name = ''AbortError''
           then networkText False (analyzeConversationContext [])
           else genericText ''learning guidance'' msg False (analyzeConversationContext []))"
    if failure: "tryAttempt outcome = Inl (JsError name msg)" for outcome name msg
  proof -
    have budget: "3 = orDefault MAX_RETRIES (retries noOptions)"
      by (simp add: noOptions_budget)
    have last: "1 \<le> (3::int) \<and>
        (\<forall>j. 1 \<le> j \<and> j \<le> 3 \<longrightarrow> isl (tryAttempt (stubAlways outcome ?body j))) \<longrightarrow>
        (\<forall>e. tryAttempt (stubAlways outcome ?body 3) = Inl e \<longrightarrow> isErrorObject e)"
      by (simp add: stubAlways_fails[OF failure] isErrorObject_def)
    have fails: "1 \<le> (3::int) \<and>
        (\<forall>j. 1 \<le> j \<and> j \<le> 3 \<longrightarrow> isl (tryAttempt (stubAlways outcome ?body j))) \<and>
        tryAttempt (stubAlways outcome ?body 3) = Inl (JsError name msg)"
      by (simp add: stubAlways_fails[OF failure])
    note exhausted = conjunct2[OF askAI_returns_text[where n = 3 and opts = noOptions
        and answers = "stubAlways outcome ?body" and fetch = "stubAlways outcome" and ed = None
        and prompt = "''hello''" and h = "[]" and now = 0 and name = name and msg = msg,
        OF budget refl last]]
    from mp[OF exhausted fails] show ?thesis
      by (simp add: noOptions_budget)
  qed
  obtain limited where limited:
    "tryAttempt (HttpResponse 429 ''Too Many Requests'' (Inl JsUndefined)) =
       Inl (JsError ''Error'' limited)" "str_includes limited ''Rate limit''"
    using rate_limit_message by blast
  obtain denied where denied:
    "tryAttempt (HttpResponse 401 ''Unauthorized'' (Inl JsUndefined)) =
       Inl (JsError ''Error'' denied)"
    "\<not> str_includes denied ''Rate limit''" "str_includes denied ''Authentication''"
    using authentication_message by blast
  have aborted: "tryAttempt (FetchThrows (JsError ''AbortError'' ''This operation was aborted'')) =
      Inl (JsError ''AbortError'' ''This operation was aborted'')"
    by (simp add: tryAttempt_def)
  have empty: "tryAttempt (completion '''') = Inl (JsError ''Error'' ''Empty response from AI service'')"
    by (simp add: completion_empty newError_def)
  have r1: "returned (askAI (stubAlways (HttpResponse 429 ''Too Many Requests'' (Inl JsUndefined)))
      None ''hello'' noOptions 0 []) = Inr (rateLimitText False (analyzeConversationContext []))"
    using always[OF limited(1)] limited(2) by simp
  have r2: "returned (askAI (stubAlways (HttpResponse 401 ''Unauthorized'' (Inl JsUndefined))) None
      ''hello'' noOptions 0 []) = Inr authText"
    using always[OF denied(1)] denied(2,3) by simp
  have r3: "returned (askAI (stubAlways (FetchThrows (JsError ''AbortError''
      ''This operation was aborted''))) None ''hello'' noOptions 0 []) =
      Inr (networkText False (analyzeConversationContext []))"
    using always[OF aborted] aborted_message by simp
  have r4: "returned (askAI (stubAlways (completion '''')) None ''hello'' noOptions 0 []) =
      Inr (genericText ''learning guidance'' ''Empty response from AI service'' False
        (analyzeConversationContext []))"
    using always[OF empty] empty_response_message by simp
  have r5: "returned (askAI (stubThrowsTwice (HttpResponse 429 ''Too Many Requests''
      (Inl JsUndefined))) None ''hello'' noOptions 0 []) =
      Inr (rateLimitText False (analyzeConversationContext []))"
  proof -
    let ?stub = "stubThrowsTwice (HttpResponse 429 ''Too Many Requests'' (Inl JsUndefined))"
    have budget: "3 = orDefault MAX_RETRIES (retries noOptions)"
      by (simp add: noOptions_budget)
    have third: "tryAttempt (?stub ?body 3) = Inl (JsError ''Error'' limited)"
      by (simp add: stubThrowsTwice_attempts limited)
    have each: "isl (tryAttempt (?stub ?body j))" if "1 \<le> j \<and> j \<le> 3" for j
    proof (cases "j < 3")
      case True
      then show ?thesis by (simp add: stubThrowsTwice_attempts)
    next
      case False
      with that have "j = 3" by simp
      with third show ?thesis by simp
    qed
    have last: "1 \<le> (3::int) \<and> (\<forall>j. 1 \<le> j \<and> j \<le> 3 \<longrightarrow> isl (tryAttempt (?stub ?body j))) \<longrightarrow>
        (\<forall>e. tryAttempt (?stub ?body 3) = Inl e \<longrightarrow> isErrorObject e)"
      by (simp add: third isErrorObject_def)
    have fails: "1 \<le> (3::int) \<and> (\<forall>j. 1 \<le> j \<and> j \<le> 3 \<longrightarrow> isl (tryAttempt (?stub ?body j))) \<and>
        tryAttempt (?stub ?body 3) = Inl (JsError ''Error'' limited)"
      using each third by simp
    note exhausted = conjunct2[OF askAI_returns_text[where n = 3 and opts = noOptions
        and answers = "?stub ?body" and fetch = ?stub and ed = None
        and prompt = "''hello''" and h = "[]" and now = 0 and name = "''Error''"
        and msg = limited, OF budget refl last]]
    from mp[OF exhausted fails] limited(2) show ?thesis
      by simp
  qed
  show ?thesis
    by (rule conjI[OF r1 conjI[OF r2 conjI[OF r3 conjI[OF r4 r5]]]])
qed

text \<open>
  The claim as stated fails for a thrown value that is not an \<open>Error\<close> object: when \<open>fetch\<close>
  throws \<open>undefined\<close> on the last attempt, the handler throws on \<open>err.message\<close> and the
  call rejects.
\<close>

theorem askAI_rejects_counterexample:
  "returned (askAI (stubAlways (FetchThrows JsUndefined)) None ''hello'' noOptions 0 []) =
     Inl typeErrorOnUndefined"
proof -
  let ?fetch = "stubAlways (FetchThrows JsUndefined)"
  have t: "\<And>j. tryAttempt (?fetch (requestBody None ''hello'' noOptions []) j) = Inl JsUndefined"
    by (simp add: stubAlways_def tryAttempt_def)
  from askAI_all_fail[where opts = noOptions and fetch = ?fetch and ed = None
      and prompt = "''hello''" and h = "[]" and err = JsUndefined and now = 0] t
  show ?thesis
    by (simp add: noOptions_def orDefault_def MAX_RETRIES_def onLastFailure_def)
qed

section \<open>A completed exchange\<close>

lemma addToHistory_twice:
  "addToHistory r2 c2 t2 (addToHistory r1 c1 t1 h) =
     sliceLast 8 (h @ [\<lparr>role = r1, content = c1, timestamp = t1\<rparr>,
                       \<lparr>role = r2, content = c2, timestamp = t2\<rparr>])"
  using sliceLast_snoc[of 8 "h @ [\<lparr>role = r1, content = c1, timestamp = t1\<rparr>]"
      "\<lparr>role = r2, content = c2, timestamp = t2\<rparr>"]
  by (simp add: addToHistory_sliceLast)

lemma tryAttempt_ok:
  "200 \<le> status \<and> status \<le> 299 \<Longrightarrow> extractResponseText json = Inr raw \<Longrightarrow> raw \<noteq> [] \<Longrightarrow>
   tryAttempt (HttpResponse status statusText (Inr json)) = Inr (trim raw)"
  by (simp add: tryAttempt_def)

lemma processMessageOptions_retries:
  "orDefault MAX_RETRIES (retries (processMessageOptions force)) = 3"
  "orDefault False (forceMode (processMessageOptions force)) = force"
  by (simp_all add: processMessageOptions_def orDefault_def MAX_RETRIES_def)

lemma newProvider_fields:
  "chatHistory (newProvider t) = []"
  "forceAnswerCooldown (newProvider t) = False"
  "forceAnswerEnabled (newProvider t) = False"
  "mentorMode (newProvider t) = False"
  "cooldownEndTime (newProvider t) = 0"
  "conversationHistory (newProvider t) = []"
  "timers (newProvider t) = []"
  "clock (newProvider t) = t"
  by (simp_all add: newProvider_def)

text \<open>
  Claim C8. When an attempt within the budget is answered with a 2xx response whose
  completion text is not empty, and every attempt before it failed, \<open>askAI\<close> returns the
  trimmed text and the history is the one before with two entries appended, the prompt as
  user and the trimmed text as assistant, in that order (the history keeps its last 8
  entries). When the call is the one \<open>handleUserMessage\<close> makes outside the mentor
  branch, the display log gains the user message and the reply. On the idle state, with
  a stub that answers \<open>Hi there\<close> to \<open>hello\<close>, both logs are the two entries.
\<close>

theorem successful_exchange_recorded:
  assumes "1 \<le> k" and "k \<le> orDefault MAX_RETRIES (retries opts)"
    and "\<forall>j. 1 \<le> j \<and> j < k \<longrightarrow> isl (tryAttempt (fetch (requestBody ed prompt opts h) j))"
    and "fetch (requestBody ed prompt opts h) k = HttpResponse status statusText (Inr json)"
    and "200 \<le> status \<and> status \<le> 299"
    and "extractResponseText json = Inr raw" and "raw \<noteq> []"
  shows "returned (askAI fetch ed prompt opts now h) = Inr (trim raw) \<and>
         history (askAI fetch ed prompt opts now h) =
           sliceLast 8 (h @ [\<lparr>role = User, content = prompt, timestamp = now\<rparr>,
                             \<lparr>role = Assistant, content = trim raw, timestamp = now\<rparr>]) \<and>
         (opts = processMessageOptions (forceAnswerEnabled w) \<and> h = conversationHistory w \<and>
          now = clock w + int elapsed \<and> trim prompt \<noteq> [] \<and>
          \<not> (mentorMode w \<and> forceAnswerCooldown w \<and> \<not> forceAnswerEnabled w) \<longrightarrow>
            conversationHistory (handleUserMessage fetch ed elapsed prompt w) =
              sliceLast 8 (h @ [\<lparr>role = User, content = prompt, timestamp = now\<rparr>,
                                \<lparr>role = Assistant, content = trim raw, timestamp = now\<rparr>]) \<and>
            chatHistory (handleUserMessage fetch ed elapsed prompt w) =
              chatHistory w @
                [\<lparr>role = User, content = prompt, timestamp = clock w\<rparr>,
                 \<lparr>role = Assistant,
                  content = (if trim raw \<noteq> [] then trim raw else apologyText),
                  timestamp = now\<rparr>])"
proof -
  have ok: "tryAttempt (fetch (requestBody ed prompt opts h) k) = Inr (trim raw)"
    using assms(4-7) by (simp add: tryAttempt_ok)
  have r: "askAI fetch ed prompt opts now h =
      \<lparr>returned = Inr (trim raw),
       history = addToHistory Assistant (trim raw) now (addToHistory User prompt now h),
       waits = map (\<lambda>j. 2 ^ (j - 1) * 1000) [1 ..< nat k]\<rparr>"
    using askAI_first_success[where k = k and opts = opts and fetch = fetch and ed = ed
        and prompt = prompt and h = h and fin = "trim raw" and now = now] assms(1-3) ok
    by simp
  show ?thesis
  proof (intro conjI impI)
    show "returned (askAI fetch ed prompt opts now h) = Inr (trim raw)"
      by (simp add: r)
  next
    show "history (askAI fetch ed prompt opts now h) =
        sliceLast 8 (h @ [\<lparr>role = User, content = prompt, timestamp = now\<rparr>,
                          \<lparr>role = Assistant, content = trim raw, timestamp = now\<rparr>])"
      by (simp add: r addToHistory_twice)
  next
    assume inst: "opts = processMessageOptions (forceAnswerEnabled w) \<and>
        h = conversationHistory w \<and> now = clock w + int elapsed \<and> trim prompt \<noteq> [] \<and>
        \<not> (mentorMode w \<and> forceAnswerCooldown w \<and> \<not> forceAnswerEnabled w)"
    then have "conversationHistory (handleUserMessage fetch ed elapsed prompt w) =
        history (askAI fetch ed prompt opts now h)"
      using handleUserMessage_remote(1)[of prompt w fetch ed elapsed] by simp
    then show "conversationHistory (handleUserMessage fetch ed elapsed prompt w) =
        sliceLast 8 (h @ [\<lparr>role = User, content = prompt, timestamp = now\<rparr>,
                          \<lparr>role = Assistant, content = trim raw, timestamp = now\<rparr>])"
      by (simp add: r addToHistory_twice)
  next
    assume inst: "opts = processMessageOptions (forceAnswerEnabled w) \<and>
        h = conversationHistory w \<and> now = clock w + int elapsed \<and> trim prompt \<noteq> [] \<and>
        \<not> (mentorMode w \<and> forceAnswerCooldown w \<and> \<not> forceAnswerEnabled w)"
    then have "chatHistory (handleUserMessage fetch ed elapsed prompt w) =
        chatHistory w @
          [\<lparr>role = User, content = prompt, timestamp = clock w\<rparr>,
           \<lparr>role = Assistant,
            content = replyContent (returned (askAI fetch ed prompt opts now h)),
            timestamp = now\<rparr>]"
      using handleUserMessage_remote(2)[of prompt w fetch ed elapsed] by simp
    then show "chatHistory (handleUserMessage fetch ed elapsed prompt w) =
        chatHistory w @
          [\<lparr>role = User, content = prompt, timestamp = clock w\<rparr>,
           \<lparr>role = Assistant,
            content = (if trim raw \<noteq> [] then trim raw else apologyText),
            timestamp = now\<rparr>]"
      by (simp add: r replyContent_def)
  qed
qed

theorem successful_exchange_recorded_witness:
  "entries (chatHistory afterHello) = [(User, ''hello''), (Assistant, ''Hi there'')] \<and>
   entries (conversationHistory afterHello) = [(User, ''hello''), (Assistant, ''Hi there'')] \<and>
   returned (askAI (stubAlways (completion ''Hi there'')) None ''hello''
      (processMessageOptions False) 0 []) = Inr ''Hi there''"
proof -
  let ?fetch = "stubAlways (completion ''Hi there'')"
  let ?json = "\<lparr>choices = Some [ApiChoice (Some (ApiMessage (Some ''Hi there''))) None],
                generated_text = None\<rparr>"
  let ?opts = "processMessageOptions False"
  have budget: "1 \<le> orDefault MAX_RETRIES (retries ?opts)"
    by (simp add: processMessageOptions_retries)
  have earlier: "\<forall>j. 1 \<le> j \<and> j < 1 \<longrightarrow>
      isl (tryAttempt (?fetch (requestBody None ''hello'' ?opts []) j))"
    by auto
  have answer: "?fetch (requestBody None ''hello'' ?opts []) 1 = HttpResponse 200 ''OK'' (Inr ?json)"
    by (simp add: stubAlways_def completion_def)
  have status: "(200::int) \<le> 200 \<and> (200::int) \<le> 299"
    by simp
  have raw: "extractResponseText ?json = Inr ''Hi there''"
    by (simp add: extractResponseText_def firstChoiceMessage_def orDefault_def)
  have idle: "?opts = processMessageOptions (forceAnswerEnabled (newProvider 0)) \<and>
      [] = conversationHistory (newProvider 0) \<and>
      0 = clock (newProvider 0) + int 0 \<and> trim ''hello'' \<noteq> [] \<and>
      \<not> (mentorMode (newProvider 0) \<and> forceAnswerCooldown (newProvider 0) \<and>
         \<not> forceAnswerEnabled (newProvider 0))"
    by (simp add: newProvider_fields trim_hello)
  note exchange = successful_exchange_recorded[where k = 1 and opts = ?opts and fetch = ?fetch
      and ed = None and prompt = "''hello''" and h = "[]" and status = 200
      and statusText = "''OK''" and json = ?json and raw = "''Hi there''" and now = 0
      and w = "newProvider 0" and elapsed = 0, OF _ budget earlier answer status raw]
  have one: "(1::int) \<le> 1"
    by simp
  note result = conjunct1[OF exchange[OF one]]
  note logs = mp[OF conjunct2[OF conjunct2[OF exchange[OF one]]] idle]
  from result have "returned (askAI ?fetch None ''hello'' ?opts 0 []) = Inr ''Hi there''"
    by (simp add: trim_Hi_there)
  moreover from conjunct1[OF logs]
  have "entries (conversationHistory afterHello) = [(User, ''hello''), (Assistant, ''Hi there'')]"
    by (simp add: afterHello_def entries_def sliceLast_def trim_Hi_there)
  moreover from conjunct2[OF logs]
  have "entries (chatHistory afterHello) = [(User, ''hello''), (Assistant, ''Hi there'')]"
    by (simp add: afterHello_def entries_def trim_Hi_there newProvider_fields)
  ultimately show ?thesis
    by simp
qed

text \<open>
  Claim C10. \<open>processMessage\<close> leaves the display log as it was and appends one assistant
  entry: the response of \<open>askAI\<close> as it is when it is not empty, the apology when it is
  empty, and the message built from the thrown value when \<open>askAI\<close> rejects.
\<close>

theorem processMessage_appends_one_reply:
  "chatHistory (processMessage fetch ed elapsed msg force w) =
     chatHistory w @
       [\<lparr>role = Assistant,
         content =
           (case returned (askAI fetch ed msg (processMessageOptions force)
                   (clock w + int elapsed) (conversationHistory w)) of
              Inr response \<Rightarrow> if response \<noteq> [] then response else apologyText
            | Inl err \<Rightarrow>
                [CHR 0xE2, CHR 0x9D, CHR 0x8C] @ '' I encountered an error: '' @ js_String err @
                ''. Please try again.''),
         timestamp = clock w + int elapsed\<rparr>]"
  by (simp add: processMessage_fields replyContent_def)

lemma askAI_hello:
  "returned (askAI (stubAlways (completion ''Hi there'')) None ''hello''
     (processMessageOptions False) 0 []) = Inr ''Hi there''"
  using askAI_first_success[where k = 1 and opts = "processMessageOptions False"
      and fetch = "stubAlways (completion ''Hi there'')" and ed = None and prompt = "''hello''"
      and h = "[]" and fin = "''Hi there''" and now = 0]
  by (simp add: processMessageOptions_retries stubAlways_def completion_ok trim_Hi_there)

lemma askAI_blank:
  "returned (askAI (stubAlways (completion '' '')) None ''hello''
     (processMessageOptions False) 0 []) = Inr ''''"
  using askAI_first_success[where k = 1 and opts = "processMessageOptions False"
      and fetch = "stubAlways (completion '' '')" and ed = None and prompt = "''hello''"
      and h = "[]" and fin = "''''" and now = 0]
  by (simp add: processMessageOptions_retries stubAlways_def completion_ok trim_def
      isWhiteSpace_def)

lemma askAI_undefined:
  "returned (askAI (stubAlways (FetchThrows JsUndefined)) None ''hello''
     (processMessageOptions False) 0 []) = Inl typeErrorOnUndefined"
  using askAI_all_fail[where opts = "processMessageOptions False"
      and fetch = "stubAlways (FetchThrows JsUndefined)" and ed = None
      and prompt = "''hello''" and h = "[]" and err = JsUndefined and now = 0]
  by (simp add: processMessageOptions_retries stubAlways_def tryAttempt_def onLastFailure_def)

theorem processMessage_appends_one_reply_witness:
  "chatHistory (processMessage (stubAlways (completion ''Hi there'')) None 0 ''hello'' False
      (newProvider 0)) =
     [\<lparr>role = Assistant, content = ''Hi there'', timestamp = 0\<rparr>] \<and>
   chatHistory (processMessage (stubAlways (completion '' '')) None 0 ''hello'' False
      (newProvider 0)) =
     [\<lparr>role = Assistant, content = apologyText, timestamp = 0\<rparr>] \<and>
   chatHistory (processMessage (stubAlways (FetchThrows JsUndefined)) None 0 ''hello'' False
      (newProvider 0)) =
     [\<lparr>role = Assistant,
       content = [CHR 0xE2, CHR 0x9D, CHR 0x8C] @ '' I encountered an error: '' @
         js_String typeErrorOnUndefined @ ''. Please try again.'',
       timestamp = 0\<rparr>]"
proof -
  have replied: "chatHistory (processMessage (stubAlways (completion ''Hi there'')) None 0 ''hello''
      False (newProvider 0)) =
     [\<lparr>role = Assistant, content = ''Hi there'', timestamp = 0\<rparr>]"
    by (simp add: processMessage_appends_one_reply newProvider_fields askAI_hello)
  have blank: "chatHistory (processMessage (stubAlways (completion '' '')) None 0 ''hello''
      False (newProvider 0)) =
     [\<lparr>role = Assistant, content = apologyText, timestamp = 0\<rparr>]"
    by (simp add: processMessage_appends_one_reply newProvider_fields askAI_blank)
  have thrown: "chatHistory (processMessage (stubAlways (FetchThrows JsUndefined)) None 0
      ''hello'' False (newProvider 0)) =
     [\<lparr>role = Assistant,
       content = [CHR 0xE2, CHR 0x9D, CHR 0x8C] @ '' I encountered an error: '' @
         js_String typeErrorOnUndefined @ ''. Please try again.'',
       timestamp = 0\<rparr>]"
    by (simp add: processMessage_appends_one_reply newProvider_fields askAI_undefined)
  show ?thesis by (rule conjI[OF replied conjI[OF blank thrown]])
qed

section \<open>Mentor replies and the shared history\<close>

lemma mentoring_fields:
  "mentorMode mentoring" "forceAnswerCooldown mentoring" "\<not> forceAnswerEnabled mentoring"
  "conversationHistory mentoring = []" "chatHistory mentoring = []" "clock mentoring = 0"
  by (simp_all add: mentoring_def startCooldown_fields newProvider_fields)

text \<open>
  Claim C2. While mentor mode and the cooldown are active and force answer is off,
  \<open>handleUserMessage\<close> leaves the shared conversation history as it was, and for a
  message that is not blank it appends the user message and the local mentor reply to the
  display log. Whenever \<open>handleUserMessage\<close> does change the history, one of the attempts
  of its remote call succeeded, and the change is the two entries \<open>askAI\<close> adds after
  that success. No other operation of the session touches the history.
\<close>

theorem mentor_reply_stays_out_of_history:
  "(mentorMode w \<and> forceAnswerCooldown w \<and> \<not> forceAnswerEnabled w \<longrightarrow>
      conversationHistory (handleUserMessage fetch ed elapsed msg w) = conversationHistory w \<and>
      (trim msg \<noteq> [] \<longrightarrow>
         chatHistory (handleUserMessage fetch ed elapsed msg w) =
           chatHistory w @
             [\<lparr>role = User, content = msg, timestamp = clock w\<rparr>,
              \<lparr>role = Assistant, content = generateSimpleMentorResponse msg w,
               timestamp = clock w\<rparr>])) \<and>
   (conversationHistory (handleUserMessage fetch ed elapsed msg w) \<noteq> conversationHistory w \<longrightarrow>
      (\<exists>k fin. 1 \<le> k \<and> k \<le> MAX_RETRIES \<and>
         tryAttempt (fetch (requestBody ed msg (processMessageOptions (forceAnswerEnabled w))
           (conversationHistory w)) k) = Inr fin \<and>
         conversationHistory (handleUserMessage fetch ed elapsed msg w) =
           addToHistory Assistant fin (clock w + int elapsed)
             (addToHistory User msg (clock w + int elapsed) (conversationHistory w)))) \<and>
   conversationHistory (addUserMessage msg w) = conversationHistory w \<and>
   conversationHistory (toggleForceAnswer w) = conversationHistory w \<and>
   conversationHistory (startCooldown w) = conversationHistory w \<and>
   conversationHistory (cooldownExpired due w) = conversationHistory w \<and>
   conversationHistory (initializeChat w) = conversationHistory w \<and>
   conversationHistory (clearChat w) = conversationHistory w"
proof (intro conjI impI)
  assume "mentorMode w \<and> forceAnswerCooldown w \<and> \<not> forceAnswerEnabled w"
  then show "conversationHistory (handleUserMessage fetch ed elapsed msg w) = conversationHistory w"
    by (simp add: handleUserMessage_mentor)
next
  assume "mentorMode w \<and> forceAnswerCooldown w \<and> \<not> forceAnswerEnabled w" and "trim msg \<noteq> []"
  then show "chatHistory (handleUserMessage fetch ed elapsed msg w) =
      chatHistory w @
        [\<lparr>role = User, content = msg, timestamp = clock w\<rparr>,
         \<lparr>role = Assistant, content = generateSimpleMentorResponse msg w, timestamp = clock w\<rparr>]"
    by (simp add: handleUserMessage_mentor)
next
  assume changed: "conversationHistory (handleUserMessage fetch ed elapsed msg w) \<noteq> conversationHistory w"
  then have nonblank: "trim msg \<noteq> []"
    by (auto simp: handleUserMessage_blank)
  from changed have remote: "\<not> (mentorMode w \<and> forceAnswerCooldown w \<and> \<not> forceAnswerEnabled w)"
    using handleUserMessage_mentor(1)[where w = w and fetch = fetch and ed = ed
        and elapsed = elapsed and msg = msg]
    by auto
  let ?opts = "processMessageOptions (forceAnswerEnabled w)"
  let ?now = "clock w + int elapsed"
  have h: "conversationHistory (handleUserMessage fetch ed elapsed msg w) =
      history (askAI fetch ed msg ?opts ?now (conversationHistory w))"
    by (rule handleUserMessage_remote(1)[OF nonblank remote])
  have budget: "orDefault MAX_RETRIES (retries ?opts) = MAX_RETRIES"
    by (simp add: processMessageOptions_def orDefault_def)
  from askAI_history[where fetch = fetch and ed = ed and prompt = msg and opts = ?opts
      and now = ?now and h = "conversationHistory w"] changed h
  obtain k fin where "1 \<le> k" "k \<le> orDefault MAX_RETRIES (retries ?opts)"
    "tryAttempt (fetch (requestBody ed msg ?opts (conversationHistory w)) k) = Inr fin"
    "history (askAI fetch ed msg ?opts ?now (conversationHistory w)) =
       addToHistory Assistant fin ?now (addToHistory User msg ?now (conversationHistory w))"
    by auto
  with h budget
  show "\<exists>k fin. 1 \<le> k \<and> k \<le> MAX_RETRIES \<and>
      tryAttempt (fetch (requestBody ed msg ?opts (conversationHistory w)) k) = Inr fin \<and>
      conversationHistory (handleUserMessage fetch ed elapsed msg w) =
        addToHistory Assistant fin ?now (addToHistory User msg ?now (conversationHistory w))"
    by auto
qed (simp_all add: addUserMessage_fields toggleForceAnswer_def startCooldown_fields
    cooldownExpired_def initializeChat_def clearChat_def)

theorem mentor_reply_stays_out_of_history_witness:
  "mentorMode mentoring \<and> forceAnswerCooldown mentoring \<and> \<not> forceAnswerEnabled mentoring \<and>
   trim ''hello'' \<noteq> [] \<and>
   conversationHistory (handleUserMessage (stubAlways (completion ''Hi there'')) None 0 ''hello''
      mentoring) = [] \<and>
   chatHistory (handleUserMessage (stubAlways (completion ''Hi there'')) None 0 ''hello''
      mentoring) =
     [\<lparr>role = User, content = ''hello'', timestamp = 0\<rparr>,
      \<lparr>role = Assistant, content = generateSimpleMentorResponse ''hello'' mentoring,
       timestamp = 0\<rparr>] \<and>
   conversationHistory (handleUserMessage (stubAlways (completion ''Hi there'')) None 0 ''hello''
      (newProvider 0)) \<noteq> conversationHistory (newProvider 0) \<and>
   (\<exists>k fin. 1 \<le> k \<and> k \<le> MAX_RETRIES \<and>
      tryAttempt (stubAlways (completion ''Hi there'')
        (requestBody None ''hello'' (processMessageOptions (forceAnswerEnabled (newProvider 0)))
          (conversationHistory (newProvider 0))) k) = Inr fin \<and>
      conversationHistory (handleUserMessage (stubAlways (completion ''Hi there'')) None 0
        ''hello'' (newProvider 0)) =
        addToHistory Assistant fin (clock (newProvider 0) + int 0)
          (addToHistory User ''hello'' (clock (newProvider 0) + int 0)
            (conversationHistory (newProvider 0))))"
proof -
  note mentor = conjunct1[OF mentor_reply_stays_out_of_history[where w = mentoring
      and fetch = "stubAlways (completion ''Hi there'')" and ed = None and elapsed = 0
      and msg = "''hello''"]]
  note remote = conjunct1[OF conjunct2[OF mentor_reply_stays_out_of_history[
      where w = "newProvider 0" and fetch = "stubAlways (completion ''Hi there'')"
      and ed = None and elapsed = 0 and msg = "''hello''"]]]
  have state: "mentorMode mentoring \<and> forceAnswerCooldown mentoring \<and> \<not> forceAnswerEnabled mentoring"
    by (simp add: mentoring_fields)
  have nonblank: "trim ''hello'' \<noteq> []"
    by (simp add: trim_hello)
  have changed: "conversationHistory (handleUserMessage (stubAlways (completion ''Hi there''))
      None 0 ''hello'' (newProvider 0)) \<noteq> conversationHistory (newProvider 0)"
    using afterHello_value by (simp add: afterHello_def newProvider_fields)
  note kept = conjunct1[OF mp[OF mentor state]]
  note shown = mp[OF conjunct2[OF mp[OF mentor state]] nonblank]
  note succeeded = mp[OF remote changed]
  from kept have "conversationHistory (handleUserMessage (stubAlways (completion ''Hi there''))
      None 0 ''hello'' mentoring) = []"
    by (simp add: mentoring_fields)
  moreover from shown have "chatHistory (handleUserMessage (stubAlways (completion ''Hi there''))
      None 0 ''hello'' mentoring) =
     [\<lparr>role = User, content = ''hello'', timestamp = 0\<rparr>,
      \<lparr>role = Assistant, content = generateSimpleMentorResponse ''hello'' mentoring,
       timestamp = 0\<rparr>]"
    by (simp add: mentoring_fields)
  ultimately show ?thesis
    using state nonblank changed succeeded by (intro conjI) simp_all
qed

end
